theory Spec2Isabelle
  imports Main "HOL-Library.Char_ord" "HOL-Library.List_Lexorder"
    "HOL-Library.Product_Lexorder" "HOL-Library.Multiset"
begin

section \<open>R2-Index: a read-only listing front end over an S3-compatible store\<close>

text \<open>
  A shallow embedding of \<^verbatim>\<open>src/app.py\<close>. Python \<^verbatim>\<open>str\<close> values are
  \<^typ>\<open>string\<close>; \<^verbatim>\<open>None\<close> is \<^term>\<open>None\<close>; a raised exception is the left
  summand of a result. Calls that leave the program (the store client, the image library,
  the hash function, the static file sender) are fields of the record \<open>world\<close>.
\<close>

subsection \<open>String helpers of the Python runtime\<close>

text \<open>\<^verbatim>\<open>s.split(sep)\<close> for a one-character separator: every occurrence splits, empty
  pieces are kept, and the result is never empty (\<^verbatim>\<open>"".split("/") == [""]\<close>).\<close>

fun split_on :: "char \<Rightarrow> string \<Rightarrow> string list" where
  "split_on sep [] = [[]]"
| "split_on sep (c # cs) =
     (if c = sep then [] # split_on sep cs
      else (case split_on sep cs of
              [] \<Rightarrow> [[c]]
            | w # ws \<Rightarrow> (c # w) # ws))"

text \<open>\<^verbatim>\<open>s.rstrip("/")\<close>: every trailing slash is removed.\<close>

definition rstrip_slash :: "string \<Rightarrow> string" where
  "rstrip_slash s = rev (dropWhile (\<lambda>c. c = CHR ''/'') (rev s))"

text \<open>\<^verbatim>\<open>s.endswith("/")\<close>.\<close>

definition endswith_slash :: "string \<Rightarrow> bool" where
  "endswith_slash s = (s \<noteq> [] \<and> last s = CHR ''/'')"

text \<open>\<^verbatim>\<open>str(n)\<close> for an integer.\<close>

fun str_nat :: "nat \<Rightarrow> string" where
  "str_nat n =
     (if n < 10 then [''0123456789'' ! n]
      else str_nat (n div 10) @ [''0123456789'' ! (n mod 10)])"

declare str_nat.simps [simp del]

definition str_int :: "int \<Rightarrow> string" where
  "str_int i = (if i < 0 then CHR ''-'' # str_nat (nat (- i)) else str_nat (nat i))"

subsection \<open>The file icon filter\<close>

text \<open>\<^verbatim>\<open>fileicon_filter(filename)\<close>, lines 46-86. The argument is a \<^verbatim>\<open>str\<close> or
  \<^verbatim>\<open>None\<close>; \<^verbatim>\<open>not filename\<close> holds for \<^verbatim>\<open>None\<close> and for the empty string.
  \<^verbatim>\<open>str.lower\<close> belongs to the runtime and follows the Unicode tables, so it is the
  parameter \<open>str_lower\<close>. A name that is not ASCII is read as the bytes of its UTF-8 form,
  in which the byte of the dot occurs exactly where the name has a dot. The test
  \<^verbatim>\<open>"." in filename\<close> looks at the name as given, the split at its lowered form.\<close>

definition fileicon_filter :: "(string \<Rightarrow> string) \<Rightarrow> string option \<Rightarrow> string" where
  "fileicon_filter str_lower filename =
     (case filename of
        None \<Rightarrow> ''fas fa-file''
      | Some fname \<Rightarrow>
          if fname = [] then ''fas fa-file''
          else
            let ext = (if CHR ''.'' \<in> set fname
                       then last (split_on CHR ''.'' (str_lower fname)) else [])
            in if ext \<in> set [''jpg'', ''jpeg'', ''png'', ''gif'', ''bmp'', ''webp'', ''svg'']
               then ''fas fa-image''
               else if ext \<in> set [''mp3'', ''wav'', ''ogg'', ''flac'', ''m4a'', ''aac'']
               then ''fas fa-music''
               else if ext \<in> set [''mp4'', ''webm'', ''avi'', ''mov'', ''wmv'', ''flv'', ''mkv'']
               then ''fas fa-video''
               else if ext \<in> set [''pdf'', ''doc'', ''docx'', ''txt'', ''md'', ''rtf'']
               then ''fas fa-file-alt''
               else if ext \<in> set [''zip'', ''rar'', ''7z'', ''tar'', ''gz'']
               then ''fas fa-file-archive''
               else if ext \<in> set [''py'', ''js'', ''html'', ''css'', ''java'', ''cpp'', ''c'', ''php'']
               then ''fas fa-file-code''
               else if ext \<in> set [''xls'', ''xlsx'', ''csv'']
               then ''fas fa-file-excel''
               else if ext \<in> set [''ppt'', ''pptx'']
               then ''fas fa-file-powerpoint''
               else ''fas fa-file'')"

text \<open>The nine icon classes the filter can return, and every extension it recognises.\<close>

definition icon_classes :: "string list" where
  "icon_classes =
     [''fas fa-file'', ''fas fa-image'', ''fas fa-music'', ''fas fa-video'',
      ''fas fa-file-alt'', ''fas fa-file-archive'', ''fas fa-file-code'',
      ''fas fa-file-excel'', ''fas fa-file-powerpoint'']"

definition known_extensions :: "string list" where
  "known_extensions =
     [''jpg'', ''jpeg'', ''png'', ''gif'', ''bmp'', ''webp'', ''svg'',
      ''mp3'', ''wav'', ''ogg'', ''flac'', ''m4a'', ''aac'',
      ''mp4'', ''webm'', ''avi'', ''mov'', ''wmv'', ''flv'', ''mkv'',
      ''pdf'', ''doc'', ''docx'', ''txt'', ''md'', ''rtf'',
      ''zip'', ''rar'', ''7z'', ''tar'', ''gz'',
      ''py'', ''js'', ''html'', ''css'', ''java'', ''cpp'', ''c'', ''php'',
      ''xls'', ''xlsx'', ''csv'',
      ''ppt'', ''pptx'']"

text \<open>What \<^verbatim>\<open>str.lower\<close> does to a string of ASCII characters: the letters \<^verbatim>\<open>A\<close> to
  \<^verbatim>\<open>Z\<close> become \<^verbatim>\<open>a\<close> to \<^verbatim>\<open>z\<close>, every other character stays. These two
  functions are not the parameter \<open>str_lower\<close>; they say what it does on such strings.\<close>

definition ascii_lower_char :: "char \<Rightarrow> char" where
  "ascii_lower_char c =
     (case map_of (zip ''ABCDEFGHIJKLMNOPQRSTUVWXYZ'' ''abcdefghijklmnopqrstuvwxyz'') c of
        Some d \<Rightarrow> d
      | None \<Rightarrow> c)"

definition ascii_lower :: "string \<Rightarrow> string" where
  "ascii_lower s = map ascii_lower_char s"

definition is_ascii :: "string \<Rightarrow> bool" where
  "is_ascii s = list_all (\<lambda>c. (of_char c :: nat) < 128) s"

subsection \<open>Exceptions and truth values\<close>

text \<open>The exceptions the handlers can meet. \<^verbatim>\<open>ClientError\<close> is botocore's, with
  \<^verbatim>\<open>e.response["Error"]["Code"]\<close> and its message; \<^verbatim>\<open>HTTPException\<close> is what
  \<^verbatim>\<open>flask.abort(code)\<close> raises (a subclass of \<^verbatim>\<open>Exception\<close>, as all of them are);
  \<^verbatim>\<open>Exception\<close> stands for any other one, with its message.\<close>

datatype exn =
    RuntimeError string
  | ClientError string string
  | HTTPException nat
  | Exception string

text \<open>\<^verbatim>\<open>str(e)\<close>; of an HTTP exception only the status code is kept.\<close>

fun str_exn :: "exn \<Rightarrow> string" where
  "str_exn (RuntimeError msg) = msg"
| "str_exn (ClientError code msg) = msg"
| "str_exn (HTTPException code) = str_nat code"
| "str_exn (Exception msg) = msg"

definition abort :: "nat \<Rightarrow> exn" where
  "abort code = HTTPException code"

text \<open>\<^verbatim>\<open>not v\<close> for a value that is a \<^verbatim>\<open>str\<close> or \<^verbatim>\<open>None\<close>, and \<^verbatim>\<open>a or b\<close>.\<close>

definition falsy :: "string option \<Rightarrow> bool" where
  "falsy v = (case v of None \<Rightarrow> True | Some s \<Rightarrow> s = [])"

definition py_or :: "string option \<Rightarrow> string option \<Rightarrow> string option" where
  "py_or a b = (if falsy a then b else a)"

subsection \<open>Data of the store and of the responses\<close>

type_synonym environ = "string \<rightharpoonup> string"

record s3_client =
  endpoint_url :: string
  aws_access_key_id :: string
  aws_secret_access_key :: string
  signature_version :: string
  region_name :: string

record datetime =
  year :: nat
  month :: nat
  day :: nat
  hour :: nat
  minute :: nat
  second :: nat

text \<open>One element of \<^verbatim>\<open>response["Contents"]\<close>; the source reads each item with
  \<^verbatim>\<open>obj.get\<close>, so each may be missing.\<close>

record s3_object =
  Key :: "string option"
  Size :: "int option"
  LastModified :: "datetime option"

text \<open>The keyword arguments and the answer of \<^verbatim>\<open>list_objects_v2\<close>. An element of
  \<^verbatim>\<open>CommonPrefixes\<close> is given by its \<^verbatim>\<open>Prefix\<close> item, \<^term>\<open>None\<close> when it has none.\<close>

record list_kwargs =
  Bucket :: "string option"
  Delimiter :: string
  Prefix :: "string option"

record list_response =
  Contents :: "s3_object list option"
  CommonPrefixes :: "string option list option"

record s3_file =
  ContentType :: string
  ContentLength :: int
  Body :: string

record response =
  status :: nat
  mimetype :: string
  headers :: "string \<rightharpoonup> string"
  body :: string

text \<open>An entry of a listing: the dictionary the handlers build. An item that a dictionary
  does not have is \<^term>\<open>None\<close>; \<open>e_size\<close> is \<^term>\<open>Some None\<close> when the item is there
  with the value \<^verbatim>\<open>None\<close>.\<close>

record entry =
  e_name :: string
  e_key :: string
  e_size :: "int option option"
  e_last_modified :: "string option"
  e_is_dir :: bool
  e_public_url :: "string option"
  e_presigned_url :: "string option"
  e_file_url :: "string option"

record crumb =
  c_name :: string
  c_prefix :: string

text \<open>What \<^verbatim>\<open>render_template("index.html", ...)\<close> is given: the listing
  (entries, current prefix, crumbs, current year) or the error text and the year.\<close>

datatype page =
    Listing "entry list" string "crumb list" nat
  | ErrorPage string nat

text \<open>A call of the store made while a request is handled.\<close>

datatype store_call = GetObject "string option" string

text \<open>Everything outside \<^verbatim>\<open>app.py\<close>: the methods of the boto3 client, \<^verbatim>\<open>int\<close> on a
  string (\<^term>\<open>None\<close> for \<^verbatim>\<open>ValueError\<close>), \<^verbatim>\<open>hashlib.md5(...).hexdigest()\<close>, the Pillow
  pipeline of \<open>thumb\<close> (open, convert to RGB, thumbnail 320x320, save as JPEG at quality 80),
  Flask's \<^verbatim>\<open>send_file(path, mimetype)\<close>, \<^verbatim>\<open>app.static_folder\<close> and the clock.\<close>

record world =
  list_objects_v2 :: "s3_client \<Rightarrow> list_kwargs \<Rightarrow> exn + list_response"
  head_object :: "s3_client \<Rightarrow> string option \<Rightarrow> string \<Rightarrow> exn + unit"
  get_object :: "s3_client \<Rightarrow> string option \<Rightarrow> string \<Rightarrow> exn + s3_file"
  presign_get_object :: "s3_client \<Rightarrow> string option \<Rightarrow> string \<Rightarrow> int \<Rightarrow> exn + string"
  py_int :: "string \<Rightarrow> int option"
  md5_hexdigest :: "string \<Rightarrow> string"
  jpeg_thumbnail :: "string \<Rightarrow> exn + string"
  send_file :: "string \<Rightarrow> string \<Rightarrow> exn + response"
  static_folder :: string
  current_year :: nat

subsection \<open>Configuration and helpers\<close>

text \<open>\<^verbatim>\<open>os.getenv(name, default)\<close>.\<close>

definition getenv_default :: "environ \<Rightarrow> string \<Rightarrow> string \<Rightarrow> string" where
  "getenv_default env var dflt = (case env var of None \<Rightarrow> dflt | Some v \<Rightarrow> v)"

text \<open>The module level: \<^verbatim>\<open>THUMB_TTL = int(os.getenv("THUMB_TTL_SECONDS", "3600"))\<close> is
  all that runs when the application starts; the result is \<^verbatim>\<open>THUMB_TTL\<close>.\<close>

definition startup :: "world \<Rightarrow> environ \<Rightarrow> exn + int" where
  "startup w env =
     (case py_int w (getenv_default env ''THUMB_TTL_SECONDS'' ''3600'') of
        None \<Rightarrow> Inl (Exception ''ValueError'')
      | Some ttl \<Rightarrow> Inr ttl)"

text \<open>\<^verbatim>\<open>get_s3_client()\<close>, lines 89-112.\<close>

definition get_s3_client :: "environ \<Rightarrow> exn + s3_client" where
  "get_s3_client env =
     (let endpoint = env ''R2_ENDPOINT_URL'' in
      if falsy endpoint
      then Inl (RuntimeError ''R2_ENDPOINT_URL environment variable is not set'')
      else
        let access_key = py_or (env ''ACCESS_KEY_ID'') (env ''ACCESS_KEY_ID'');
            secret_key = py_or (env ''SECRET_ACCESS_KEY'') (env ''SECRET_ACCESS_KEY'')
        in if falsy access_key \<or> falsy secret_key
           then Inl (RuntimeError ''ACCESS_KEY_ID and SECRET_ACCESS_KEY must be set'')
           else Inr \<lparr>endpoint_url = the endpoint,
                     aws_access_key_id = the access_key,
                     aws_secret_access_key = the secret_key,
                     signature_version = ''s3v4'',
                     region_name = getenv_default env ''R2_REGION'' ''auto''\<rparr>)"

text \<open>\<^verbatim>\<open>get_public_url(key)\<close>, lines 115-122.\<close>

definition get_public_url :: "environ \<Rightarrow> string \<Rightarrow> string option" where
  "get_public_url env k =
     (let base_url = env ''R2_PUBLIC_URL'' in
      if falsy base_url then None
      else Some (rstrip_slash (the base_url) @ ''/'' @ k))"

text \<open>\<^verbatim>\<open>format_timestamp(timestamp)\<close>, lines 125-131: a \<^verbatim>\<open>datetime\<close> is printed as
  \<^verbatim>\<open>%Y-%m-%d %H:%M:%S\<close>, and \<^verbatim>\<open>str(None)\<close> is \<^verbatim>\<open>"None"\<close>.\<close>

definition zfill :: "nat \<Rightarrow> string \<Rightarrow> string" where
  "zfill n s = replicate (n - length s) CHR ''0'' @ s"

definition strftime :: "datetime \<Rightarrow> string" where
  "strftime d =
     zfill 4 (str_nat (year d)) @ ''-'' @ zfill 2 (str_nat (month d)) @ ''-'' @
     zfill 2 (str_nat (day d)) @ '' '' @ zfill 2 (str_nat (hour d)) @ '':'' @
     zfill 2 (str_nat (minute d)) @ '':'' @ zfill 2 (str_nat (second d))"

definition format_timestamp :: "datetime option \<Rightarrow> string" where
  "format_timestamp timestamp =
     (case timestamp of Some d \<Rightarrow> strftime d | None \<Rightarrow> ''None'')"

text \<open>\<^verbatim>\<open>generate_presigned_url(s3_client, bucket_name, key)\<close>, lines 134-151, always
  called without \<^verbatim>\<open>expires\<close>. An exception of the client gives \<^verbatim>\<open>None\<close>.\<close>

definition generate_presigned_url ::
  "world \<Rightarrow> environ \<Rightarrow> s3_client \<Rightarrow> string option \<Rightarrow> string \<Rightarrow> string option" where
  "generate_presigned_url w env s3 bucket_name k =
     (let expires = (case py_int w (getenv_default env ''R2_PRESIGN_EXPIRES'' ''3600'') of
                       None \<Rightarrow> 3600
                     | Some n \<Rightarrow> n)
      in case presign_get_object w s3 bucket_name k expires of
           Inl e \<Rightarrow> None
         | Inr url \<Rightarrow> Some url)"

text \<open>\<^verbatim>\<open>get_file_url(key)\<close>, lines 343-345.\<close>

definition get_file_url :: "string \<Rightarrow> string" where
  "get_file_url k = ''/file/'' @ k"

subsection \<open>The listing routes\<close>

text \<open>Both routes start with
  \<^verbatim>\<open>if prefix and not prefix.endswith("/"): prefix = prefix + "/"\<close>.\<close>

definition normalize_prefix :: "string \<Rightarrow> string" where
  "normalize_prefix prefix =
     (if prefix \<noteq> [] \<and> \<not> endswith_slash prefix then prefix @ ''/'' else prefix)"

text \<open>The body of the loop over \<^verbatim>\<open>response["Contents"]\<close> in \<open>index\<close>, lines 177-208:
  \<^term>\<open>None\<close> where the loop says \<^verbatim>\<open>continue\<close>, else the entry it appends.\<close>

definition index_file_entry ::
  "world \<Rightarrow> environ \<Rightarrow> s3_client \<Rightarrow> string option \<Rightarrow> string \<Rightarrow> s3_object \<Rightarrow> entry option" where
  "index_file_entry w env s3 bucket_name prefix obj =
     (let k = (case Key obj of None \<Rightarrow> [] | Some v \<Rightarrow> v) in
      if prefix \<noteq> [] \<and> k = prefix then None
      else if endswith_slash k then None
      else
        let rel_name = (if prefix \<noteq> [] then drop (length prefix) k else k);
            public_url = get_public_url env k;
            presigned = generate_presigned_url w env s3 bucket_name k
        in Some \<lparr>e_name = rel_name,
                  e_key = k,
                  e_size = Some (Size obj),
                  e_last_modified = Some (format_timestamp (LastModified obj)),
                  e_is_dir = False,
                  e_public_url = (if falsy public_url then None else public_url),
                  e_presigned_url = (if falsy presigned then None else presigned),
                  e_file_url = Some (get_file_url k)\<rparr>)"

text \<open>The same loop in \<open>browse\<close>, lines 261-276.\<close>

definition browse_file_entry :: "string \<Rightarrow> s3_object \<Rightarrow> entry option" where
  "browse_file_entry prefix obj =
     (let k = (case Key obj of None \<Rightarrow> [] | Some v \<Rightarrow> v) in
      if prefix \<noteq> [] \<and> k = prefix then None
      else if endswith_slash k then None
      else
        let rel_name = (if prefix \<noteq> [] then drop (length prefix) k else k)
        in Some \<lparr>e_name = rel_name,
                  e_key = k,
                  e_size = Some (Size obj),
                  e_last_modified = Some (format_timestamp (LastModified obj)),
                  e_is_dir = False,
                  e_public_url = None,
                  e_presigned_url = None,
                  e_file_url = Some (get_file_url k)\<rparr>)"

text \<open>The loop over \<^verbatim>\<open>response["CommonPrefixes"]\<close>, lines 212-216 and 279-282, the same
  in both routes. \<^verbatim>\<open>p.get("Prefix")\<close> that is \<^verbatim>\<open>None\<close> makes the slice (or
  \<^verbatim>\<open>rstrip\<close>) raise, which ends the loop.\<close>

definition dir_entry :: "string \<Rightarrow> string option \<Rightarrow> exn + entry" where
  "dir_entry prefix p =
     (case p of
        None \<Rightarrow>
          Inl (Exception (if prefix \<noteq> [] then ''TypeError: NoneType object is not subscriptable''
                          else ''AttributeError: NoneType object has no attribute rstrip''))
      | Some pref \<Rightarrow>
          let rel = (if prefix \<noteq> [] then rstrip_slash (drop (length prefix) pref)
                     else rstrip_slash pref)
          in Inr \<lparr>e_name = rel, e_key = pref, e_size = None, e_last_modified = None,
                   e_is_dir = True, e_public_url = None, e_presigned_url = None,
                   e_file_url = None\<rparr>)"

fun dir_entries :: "string \<Rightarrow> string option list \<Rightarrow> exn + entry list" where
  "dir_entries prefix [] = Inr []"
| "dir_entries prefix (p # ps) =
     (case dir_entry prefix p of
        Inl e \<Rightarrow> Inl e
      | Inr d \<Rightarrow>
          (case dir_entries prefix ps of
             Inl e \<Rightarrow> Inl e
           | Inr ds \<Rightarrow> Inr (d # ds)))"

text \<open>\<^verbatim>\<open>entries.sort(key=lambda x: (not x.get("is_dir", False), x["name"]))\<close>, lines 219
  and 284. Python's sort is stable, as \<^const>\<open>sort_key\<close> is; the key is a pair, compared
  first component first, with \<^verbatim>\<open>False < True\<close> and strings in lexicographic order.\<close>

definition entry_sort_key :: "entry \<Rightarrow> bool \<times> string" where
  "entry_sort_key x = (\<not> e_is_dir x, e_name x)"

definition sort_entries :: "entry list \<Rightarrow> entry list" where
  "sort_entries entries = sort_key entry_sort_key entries"

text \<open>The breadcrumb loop, lines 222-228 and 286-292; \<open>acc\<close> is the running prefix.\<close>

fun crumbs_loop :: "string \<Rightarrow> string list \<Rightarrow> crumb list" where
  "crumbs_loop acc [] = []"
| "crumbs_loop acc (seg # segs) =
     \<lparr>c_name = seg, c_prefix = acc @ seg @ ''/''\<rparr> # crumbs_loop (acc @ seg @ ''/'') segs"

definition breadcrumbs :: "string \<Rightarrow> crumb list" where
  "breadcrumbs prefix =
     (if prefix \<noteq> [] then crumbs_loop [] (split_on CHR ''/'' (rstrip_slash prefix)) else [])"

text \<open>The entries of \<open>index\<close> before they are sorted: files in the order of
  \<^verbatim>\<open>Contents\<close>, then directories in the order of \<^verbatim>\<open>CommonPrefixes\<close>.\<close>

definition index_entries ::
  "world \<Rightarrow> environ \<Rightarrow> s3_client \<Rightarrow> string option \<Rightarrow> string \<Rightarrow> list_response \<Rightarrow> exn + entry list" where
  "index_entries w env s3 bucket_name prefix resp =
     (let files = (case Contents resp of
                     None \<Rightarrow> []
                   | Some objs \<Rightarrow> List.map_filter (index_file_entry w env s3 bucket_name prefix) objs)
      in case dir_entries prefix (case CommonPrefixes resp of None \<Rightarrow> [] | Some ps \<Rightarrow> ps) of
           Inl e \<Rightarrow> Inl e
         | Inr dirs \<Rightarrow> Inr (files @ dirs))"

definition browse_entries :: "string \<Rightarrow> list_response \<Rightarrow> exn + entry list" where
  "browse_entries prefix resp =
     (let files = (case Contents resp of
                     None \<Rightarrow> []
                   | Some objs \<Rightarrow> List.map_filter (browse_file_entry prefix) objs)
      in case dir_entries prefix (case CommonPrefixes resp of None \<Rightarrow> [] | Some ps \<Rightarrow> ps) of
           Inl e \<Rightarrow> Inl e
         | Inr dirs \<Rightarrow> Inr (files @ dirs))"

text \<open>\<open>index\<close>, lines 154-241. The argument is \<^verbatim>\<open>request.args.get("prefix")\<close>. The first
  definition is the body of the \<^verbatim>\<open>try\<close>, the second adds the handler, which renders the
  page with the error text.\<close>

definition index_try :: "world \<Rightarrow> environ \<Rightarrow> string option \<Rightarrow> exn + page" where
  "index_try w env arg_prefix =
     (case get_s3_client env of
        Inl e \<Rightarrow> Inl e
      | Inr s3 \<Rightarrow>
          let bucket_name = env ''R2_BUCKET_NAME'';
              prefix = normalize_prefix (case arg_prefix of None \<Rightarrow> [] | Some v \<Rightarrow> v);
              kwargs = \<lparr>Bucket = bucket_name, Delimiter = ''/'',
                        Prefix = (if prefix \<noteq> [] then Some prefix else None)\<rparr>
          in case list_objects_v2 w s3 kwargs of
               Inl e \<Rightarrow> Inl e
             | Inr resp \<Rightarrow>
                 (case index_entries w env s3 bucket_name prefix resp of
                    Inl e \<Rightarrow> Inl e
                  | Inr entries \<Rightarrow>
                      Inr (Listing (sort_entries entries) prefix (breadcrumbs prefix)
                             (current_year w))))"

definition index :: "world \<Rightarrow> environ \<Rightarrow> string option \<Rightarrow> page" where
  "index w env arg_prefix =
     (case index_try w env arg_prefix of
        Inl e \<Rightarrow> ErrorPage (str_exn e) (current_year w)
      | Inr pg \<Rightarrow> pg)"

text \<open>\<open>browse\<close>, lines 244-305. The argument is the path of the URL.\<close>

definition browse_try :: "world \<Rightarrow> environ \<Rightarrow> string \<Rightarrow> exn + page" where
  "browse_try w env prefix_path =
     (case get_s3_client env of
        Inl e \<Rightarrow> Inl e
      | Inr s3 \<Rightarrow>
          let bucket_name = env ''R2_BUCKET_NAME'';
              prefix = normalize_prefix prefix_path;
              kwargs = \<lparr>Bucket = bucket_name, Delimiter = ''/'', Prefix = Some prefix\<rparr>
          in case list_objects_v2 w s3 kwargs of
               Inl e \<Rightarrow> Inl e
             | Inr resp \<Rightarrow>
                 (case browse_entries prefix resp of
                    Inl e \<Rightarrow> Inl e
                  | Inr entries \<Rightarrow>
                      Inr (Listing (sort_entries entries) prefix (breadcrumbs prefix)
                             (current_year w))))"

definition browse :: "world \<Rightarrow> environ \<Rightarrow> string \<Rightarrow> page" where
  "browse w env prefix_path =
     (case browse_try w env prefix_path of
        Inl e \<Rightarrow> ErrorPage (str_exn e) (current_year w)
      | Inr pg \<Rightarrow> pg)"

subsection \<open>The file route\<close>

text \<open>\<open>serve_file\<close>, lines 308-340. \<^verbatim>\<open>abort(code)\<close> raises, and the \<^verbatim>\<open>abort\<close> calls
  of the inner handler stand inside the outer \<^verbatim>\<open>try\<close>, whose handler catches every
  \<^verbatim>\<open>Exception\<close>. The first definition is the body of the outer \<^verbatim>\<open>try\<close>.\<close>

definition serve_file_try :: "world \<Rightarrow> environ \<Rightarrow> string \<Rightarrow> exn + response" where
  "serve_file_try w env file_path =
     (case get_s3_client env of
        Inl e \<Rightarrow> Inl e
      | Inr s3 \<Rightarrow>
          let bucket_name = env ''R2_BUCKET_NAME'' in
          case head_object w s3 bucket_name file_path of
            Inl (ClientError code msg) \<Rightarrow>
              if code = ''404'' then Inl (abort 404) else Inl (abort 500)
          | Inl e \<Rightarrow> Inl e
          | Inr u \<Rightarrow>
              (case get_object w s3 bucket_name file_path of
                 Inl e \<Rightarrow> Inl e
               | Inr file_obj \<Rightarrow>
                   Inr \<lparr>status = 200, mimetype = ContentType file_obj,
                        headers = map_of [(''Content-Type'', ContentType file_obj),
                                          (''Content-Length'', str_int (ContentLength file_obj))],
                        body = Body file_obj\<rparr>))"

definition serve_file :: "world \<Rightarrow> environ \<Rightarrow> string \<Rightarrow> exn + response" where
  "serve_file w env file_path =
     (case serve_file_try w env file_path of
        Inl e \<Rightarrow> Inl (abort 500)
      | Inr r \<Rightarrow> Inr r)"

text \<open>The status Flask answers with: that of the response, the code of an HTTP exception
  that leaves the view, 500 for any other exception.\<close>

definition http_status :: "exn + response \<Rightarrow> nat" where
  "http_status res =
     (case res of
        Inr r \<Rightarrow> status r
      | Inl (HTTPException code) \<Rightarrow> code
      | Inl e \<Rightarrow> 500)"

subsection \<open>The thumbnail route\<close>

text \<open>The validator of line 356, and the two headers of lines 354-357.\<close>

definition thumb_etag :: "(string \<Rightarrow> string) \<Rightarrow> string \<Rightarrow> string" where
  "thumb_etag md5 file_path = ''W/'' @ [CHR 0x22] @ md5 file_path @ [CHR 0x22]"

definition cache_headers :: "world \<Rightarrow> int \<Rightarrow> string \<Rightarrow> (string \<times> string) list" where
  "cache_headers w THUMB_TTL file_path =
     [(''Cache-Control'', ''public, max-age='' @ str_int THUMB_TTL),
      (''ETag'', thumb_etag (md5_hexdigest w) file_path)]"

text \<open>\<^verbatim>\<open>response.headers.update(cache_headers)\<close>.\<close>

definition headers_update :: "response \<Rightarrow> (string \<times> string) list \<Rightarrow> response" where
  "headers_update r hs = r\<lparr>headers := headers r ++ map_of hs\<rparr>"

text \<open>The three handlers of \<open>thumb\<close> do the same: send the placeholder file with the
  cache headers. \<^verbatim>\<open>send_file\<close> may itself raise.\<close>

definition placeholder :: "world \<Rightarrow> (string \<times> string) list \<Rightarrow> exn + response" where
  "placeholder w hs =
     (case send_file w (static_folder w @ ''/thumb_placeholder.svg'') ''image/svg+xml'' of
        Inl e \<Rightarrow> Inl e
      | Inr r \<Rightarrow> Inr (headers_update r hs))"

text \<open>\<open>thumb\<close>, lines 348-406. The arguments are \<^verbatim>\<open>THUMB_TTL\<close>, the request's
  \<^verbatim>\<open>If-None-Match\<close> header and the path; the result comes with the calls of the store
  that were made, in order. The first definition is the body of the outer \<^verbatim>\<open>try\<close>.\<close>

definition thumb_try ::
  "world \<Rightarrow> environ \<Rightarrow> (string \<times> string) list \<Rightarrow> string option \<Rightarrow> string
     \<Rightarrow> (exn + response) \<times> store_call list" where
  "thumb_try w env hs bucket_name file_path =
     (case get_s3_client env of
        Inl e \<Rightarrow> (Inl e, [])
      | Inr s3 \<Rightarrow>
          (case get_object w s3 bucket_name file_path of
             Inl e \<Rightarrow> (placeholder w hs, [GetObject bucket_name file_path])
           | Inr obj \<Rightarrow>
               (case jpeg_thumbnail w (Body obj) of
                  Inl e \<Rightarrow> (placeholder w hs, [GetObject bucket_name file_path])
                | Inr thumb_bytes \<Rightarrow>
                    (Inr (headers_update
                            \<lparr>status = 200, mimetype = ''image/jpeg'',
                             headers = Map.empty, body = thumb_bytes\<rparr> hs),
                     [GetObject bucket_name file_path]))))"

definition thumb ::
  "world \<Rightarrow> environ \<Rightarrow> int \<Rightarrow> string option \<Rightarrow> string
     \<Rightarrow> (exn + response) \<times> store_call list" where
  "thumb w env THUMB_TTL if_none_match file_path =
     (let bucket_name = env ''R2_BUCKET_NAME'';
          hs = cache_headers w THUMB_TTL file_path;
          etag = if_none_match
      in if \<not> falsy etag \<and> etag = Some (thumb_etag (md5_hexdigest w) file_path)
         then (Inr \<lparr>status = 304, mimetype = ''text/html'', headers = map_of hs, body = []\<rparr>,
               [])
         else
           (case thumb_try w env hs bucket_name file_path of
              (Inl e, calls) \<Rightarrow> (placeholder w hs, calls)
            | (Inr r, calls) \<Rightarrow> (Inr r, calls)))"

subsection \<open>A small store, for the concrete runs\<close>

text \<open>A configured environment, and a world whose bucket holds \<^verbatim>\<open>photos/a.txt\<close> and
  objects under \<^verbatim>\<open>photos/2024/\<close>: the listing of \<^verbatim>\<open>photos/\<close> has one object and one
  common prefix; no object is called \<^verbatim>\<open>missing.png\<close>, which is what every probe and fetch
  of this world is asked for; URLs are signed; the placeholder file is served.\<close>

definition demo_env :: environ where
  "demo_env =
     [''R2_ENDPOINT_URL'' \<mapsto> ''https://r2.example'', ''ACCESS_KEY_ID'' \<mapsto> ''ak'',
      ''SECRET_ACCESS_KEY'' \<mapsto> ''sk'', ''R2_BUCKET_NAME'' \<mapsto> ''bucket'']"

definition demo_world :: world where
  "demo_world =
     \<lparr>list_objects_v2 = (\<lambda>s3 kwargs.
          Inr \<lparr>Contents = Some [\<lparr>Key = Some ''photos/a.txt'', Size = Some 5,
                                   LastModified = Some \<lparr>year = 2024, month = 3, day = 9,
                                     hour = 7, minute = 5, second = 0\<rparr>\<rparr>],
                CommonPrefixes = Some [Some ''photos/2024/'']\<rparr>),
      head_object = (\<lambda>s3 bucket k. Inl (ClientError ''404'' ''Not Found'')),
      get_object = (\<lambda>s3 bucket k. Inl (ClientError ''NoSuchKey'' ''The specified key does not exist.'')),
      presign_get_object = (\<lambda>s3 bucket k expires. Inr (''https://r2.example/bucket/'' @ k @ ''?X-Amz-Expires='' @ str_int expires)),
      py_int = (\<lambda>s. if s = ''3600'' then Some 3600 else None),
      md5_hexdigest = (\<lambda>s. ''6f5902ac237024bdd0c176cb93063dc4''),
      jpeg_thumbnail = (\<lambda>data. Inl (Exception ''cannot identify image file'')),
      send_file = (\<lambda>path mt. Inr \<lparr>status = 200, mimetype = mt,
                                    headers = map_of [(''Cache-Control'', ''no-cache'')],
                                    body = ''<svg/>''\<rparr>),
      static_folder = ''static'',
      current_year = 2026\<rparr>"

text \<open>The same world with a store that answers with two objects of the same key, of
  sizes 1 and 2 in this order: their entries have the same sort key.\<close>

definition tie_world :: world where
  "tie_world =
     demo_world\<lparr>list_objects_v2 := (\<lambda>s3 kwargs.
        Inr \<lparr>Contents = Some [\<lparr>Key = Some ''photos/a.txt'', Size = Some 1,
                                 LastModified = None\<rparr>,
                               \<lparr>Key = Some ''photos/a.txt'', Size = Some 2,
                                 LastModified = None\<rparr>],
              CommonPrefixes = Some [Some ''photos/2024/'']\<rparr>)\<rparr>"

section \<open>Properties\<close>

lemma split_on_nonempty: "split_on sep s \<noteq> []"
  by (induction s) (auto split: list.splits)

subsection \<open>The icon filter is total and closed\<close>

lemma ascii_lower_char_dot: "(ascii_lower_char c = CHR ''.'') = (c = CHR ''.'')"
  by (simp add: ascii_lower_char_def)

lemma dot_in_ascii_lower: "(CHR ''.'' \<in> set (ascii_lower s)) = (CHR ''.'' \<in> set s)"
proof (induction s)
  case Nil
  show ?case by (simp add: ascii_lower_def)
next
  case (Cons c cs)
  have "(CHR ''.'' = ascii_lower_char c) = (CHR ''.'' = c)"
    using ascii_lower_char_dot [of c] by auto
  with Cons show ?case by (simp add: ascii_lower_def)
qed

lemma fileicon_closed: "fileicon_filter lw filename \<in> set icon_classes"
  by (simp add: fileicon_filter_def icon_classes_def Let_def split: option.splits)

lemma fileicon_same_lower:
  assumes "lw a = lw b" and "(CHR ''.'' \<in> set a) = (CHR ''.'' \<in> set b)"
  shows "fileicon_filter lw (Some a) = fileicon_filter lw (Some b)"
proof (cases "CHR ''.'' \<in> set a")
  case True
  with assms(2) have "a \<noteq> []" and "b \<noteq> []" and "CHR ''.'' \<in> set b"
    by auto
  with True assms(1) show ?thesis
    by (simp add: fileicon_filter_def)
next
  case False
  with assms(2) have "CHR ''.'' \<notin> set b"
    by simp
  with False show ?thesis
    by (simp add: fileicon_filter_def)
qed

lemma fileicon_no_dot: "CHR ''.'' \<notin> set f \<Longrightarrow> fileicon_filter lw (Some f) = ''fas fa-file''"
  by (simp add: fileicon_filter_def)

lemma fileicon_unknown:
  "last (split_on CHR ''.'' (lw g)) \<notin> set known_extensions
     \<Longrightarrow> fileicon_filter lw (Some g) = ''fas fa-file''"
  by (simp add: fileicon_filter_def known_extensions_def Let_def)

lemma fileicon_None: "fileicon_filter lw None = ''fas fa-file''"
  by (simp add: fileicon_filter_def)

lemma fileicon_empty: "fileicon_filter lw (Some []) = ''fas fa-file''"
  by (simp add: fileicon_filter_def)

lemma fileicon_lowered:
  assumes "lw n = l" and "CHR ''.'' \<in> set n"
  shows "fileicon_filter lw (Some n) = fileicon_filter (\<lambda>s. l) (Some n)"
  using assms by (auto simp: fileicon_filter_def)

lemma fileicon_examples:
  "fileicon_filter (\<lambda>s. ''a.png'') (Some ''a.png'') = ''fas fa-image''"
  "fileicon_filter (\<lambda>s. ''a.mp3'') (Some ''a.mp3'') = ''fas fa-music''"
  "fileicon_filter (\<lambda>s. ''a.mp4'') (Some ''a.mp4'') = ''fas fa-video''"
  "fileicon_filter (\<lambda>s. ''a.pdf'') (Some ''a.pdf'') = ''fas fa-file-alt''"
  "fileicon_filter (\<lambda>s. ''a.zip'') (Some ''a.zip'') = ''fas fa-file-archive''"
  "fileicon_filter (\<lambda>s. ''a.py'') (Some ''a.py'') = ''fas fa-file-code''"
  "fileicon_filter (\<lambda>s. ''a.csv'') (Some ''a.csv'') = ''fas fa-file-excel''"
  "fileicon_filter (\<lambda>s. ''a.ppt'') (Some ''a.ppt'') = ''fas fa-file-powerpoint''"
  by (simp_all add: fileicon_filter_def)

lemma ascii_examples:
  "is_ascii ''a.png'' \<and> ascii_lower ''a.png'' = ''a.png''"
  "is_ascii ''a.mp3'' \<and> ascii_lower ''a.mp3'' = ''a.mp3''"
  "is_ascii ''a.mp4'' \<and> ascii_lower ''a.mp4'' = ''a.mp4''"
  "is_ascii ''a.pdf'' \<and> ascii_lower ''a.pdf'' = ''a.pdf''"
  "is_ascii ''a.zip'' \<and> ascii_lower ''a.zip'' = ''a.zip''"
  "is_ascii ''a.py'' \<and> ascii_lower ''a.py'' = ''a.py''"
  "is_ascii ''a.csv'' \<and> ascii_lower ''a.csv'' = ''a.csv''"
  "is_ascii ''a.ppt'' \<and> ascii_lower ''a.ppt'' = ''a.ppt''"
  by (simp_all add: is_ascii_def ascii_lower_def ascii_lower_char_def)

lemma icons_attained:
  assumes "\<forall>s. is_ascii s \<longrightarrow> lw s = ascii_lower s"
  shows "set icon_classes \<subseteq> range (fileicon_filter lw)"
proof -
  have l: "lw n = n" if "is_ascii n \<and> ascii_lower n = n" for n
    using assms that by simp
  have e: "fileicon_filter lw (Some n) = fileicon_filter (\<lambda>s. n) (Some n)"
    if "is_ascii n \<and> ascii_lower n = n" and "CHR ''.'' \<in> set n" for n
    using fileicon_lowered [of lw n n] l [OF that(1)] that(2) by simp
  have "''fas fa-file'' \<in> range (fileicon_filter lw)"
    using rangeI [of "fileicon_filter lw" None] by (simp add: fileicon_None)
  moreover have "''fas fa-image'' \<in> range (fileicon_filter lw)"
    using rangeI [of "fileicon_filter lw" "Some ''a.png''"] e [OF ascii_examples(1)]
    by (simp add: fileicon_examples)
  moreover have "''fas fa-music'' \<in> range (fileicon_filter lw)"
    using rangeI [of "fileicon_filter lw" "Some ''a.mp3''"] e [OF ascii_examples(2)]
    by (simp add: fileicon_examples)
  moreover have "''fas fa-video'' \<in> range (fileicon_filter lw)"
    using rangeI [of "fileicon_filter lw" "Some ''a.mp4''"] e [OF ascii_examples(3)]
    by (simp add: fileicon_examples)
  moreover have "''fas fa-file-alt'' \<in> range (fileicon_filter lw)"
    using rangeI [of "fileicon_filter lw" "Some ''a.pdf''"] e [OF ascii_examples(4)]
    by (simp add: fileicon_examples)
  moreover have "''fas fa-file-archive'' \<in> range (fileicon_filter lw)"
    using rangeI [of "fileicon_filter lw" "Some ''a.zip''"] e [OF ascii_examples(5)]
    by (simp add: fileicon_examples)
  moreover have "''fas fa-file-code'' \<in> range (fileicon_filter lw)"
    using rangeI [of "fileicon_filter lw" "Some ''a.py''"] e [OF ascii_examples(6)]
    by (simp add: fileicon_examples)
  moreover have "''fas fa-file-excel'' \<in> range (fileicon_filter lw)"
    using rangeI [of "fileicon_filter lw" "Some ''a.csv''"] e [OF ascii_examples(7)]
    by (simp add: fileicon_examples)
  moreover have "''fas fa-file-powerpoint'' \<in> range (fileicon_filter lw)"
    using rangeI [of "fileicon_filter lw" "Some ''a.ppt''"] e [OF ascii_examples(8)]
    by (simp add: fileicon_examples)
  ultimately show ?thesis
    unfolding icon_classes_def by simp
qed

lemma fileicon_ascii_case:
  assumes "\<forall>s. is_ascii s \<longrightarrow> lw s = ascii_lower s"
    and "is_ascii a" and "is_ascii b" and "ascii_lower a = ascii_lower b"
  shows "fileicon_filter lw (Some a) = fileicon_filter lw (Some b)"
proof (rule fileicon_same_lower)
  show "lw a = lw b"
    using assms by simp
  show "(CHR ''.'' \<in> set a) = (CHR ''.'' \<in> set b)"
    using dot_in_ascii_lower [of a] dot_in_ascii_lower [of b] assms(4) by simp
qed

text \<open>Claim C10. Whatever the lowering function of the runtime is, the filter is a total
  function whose value is one of the nine icon classes; the icon of a name depends only
  on whether the name has a dot and on its lowered form, so two names with the same
  lowered form get the same icon; \<^verbatim>\<open>None\<close>, the empty name, a name without a dot and a
  name whose lowered form ends in an extension that is not a known one get the default
  \<^verbatim>\<open>fas fa-file\<close>. When the lowering function does on ASCII strings what
  \<^verbatim>\<open>str.lower\<close> does, each of the nine classes is taken, and two ASCII names that differ
  only in the case of their letters get the same icon.\<close>

theorem fileicon_filter_total_closed:
  "fileicon_filter lw filename \<in> set icon_classes \<and>
   length icon_classes = 9 \<and> distinct icon_classes \<and>
   (lw a = lw b \<and> (CHR ''.'' \<in> set a) = (CHR ''.'' \<in> set b) \<longrightarrow>
      fileicon_filter lw (Some a) = fileicon_filter lw (Some b)) \<and>
   fileicon_filter lw None = ''fas fa-file'' \<and>
   fileicon_filter lw (Some []) = ''fas fa-file'' \<and>
   (CHR ''.'' \<notin> set f \<longrightarrow> fileicon_filter lw (Some f) = ''fas fa-file'') \<and>
   (last (split_on CHR ''.'' (lw g)) \<notin> set known_extensions
      \<longrightarrow> fileicon_filter lw (Some g) = ''fas fa-file'') \<and>
   ((\<forall>s. is_ascii s \<longrightarrow> lw s = ascii_lower s) \<longrightarrow>
      set icon_classes \<subseteq> range (fileicon_filter lw) \<and>
      (is_ascii c \<and> is_ascii d \<and> ascii_lower c = ascii_lower d \<longrightarrow>
         fileicon_filter lw (Some c) = fileicon_filter lw (Some d)))"
proof (intro conjI impI)
  show "fileicon_filter lw filename \<in> set icon_classes"
    by (rule fileicon_closed)
  show "length icon_classes = 9"
    by (simp add: icon_classes_def)
  show "distinct icon_classes"
    by (simp add: icon_classes_def)
  show "fileicon_filter lw (Some a) = fileicon_filter lw (Some b)"
    if "lw a = lw b \<and> (CHR ''.'' \<in> set a) = (CHR ''.'' \<in> set b)"
    using that fileicon_same_lower by blast
  show "fileicon_filter lw None = ''fas fa-file''"
    by (rule fileicon_None)
  show "fileicon_filter lw (Some []) = ''fas fa-file''"
    by (rule fileicon_empty)
  show "fileicon_filter lw (Some f) = ''fas fa-file''" if "CHR ''.'' \<notin> set f"
    using that by (rule fileicon_no_dot)
  show "fileicon_filter lw (Some g) = ''fas fa-file''"
    if "last (split_on CHR ''.'' (lw g)) \<notin> set known_extensions"
    using that by (rule fileicon_unknown)
  show "set icon_classes \<subseteq> range (fileicon_filter lw)"
    if "\<forall>s. is_ascii s \<longrightarrow> lw s = ascii_lower s"
    using that by (rule icons_attained)
  show "fileicon_filter lw (Some c) = fileicon_filter lw (Some d)"
    if "\<forall>s. is_ascii s \<longrightarrow> lw s = ascii_lower s"
      and "is_ascii c \<and> is_ascii d \<and> ascii_lower c = ascii_lower d"
    using that fileicon_ascii_case by blast
qed

text \<open>The theorem with the lowering of ASCII strings as the lowering function, at
  \<^verbatim>\<open>X.PNG\<close> and \<^verbatim>\<open>x.png\<close>, at \<^verbatim>\<open>README\<close> and at \<^verbatim>\<open>notes.xyz\<close>.\<close>

theorem fileicon_filter_total_closed_witness:
  "fileicon_filter ascii_lower (Some ''X.PNG'') = ''fas fa-image'' \<and>
   fileicon_filter ascii_lower (Some ''x.png'') = ''fas fa-image'' \<and>
   fileicon_filter ascii_lower (Some ''README'') = ''fas fa-file'' \<and>
   fileicon_filter ascii_lower (Some ''notes.xyz'') = ''fas fa-file'' \<and>
   ''fas fa-video'' \<in> range (fileicon_filter ascii_lower)"
proof -
  note t = fileicon_filter_total_closed
    [of ascii_lower None "''X.PNG''" "''x.png''" "''README''" "''notes.xyz''"
        "''X.PNG''" "''x.png''"]
  have h0: "\<forall>s. is_ascii s \<longrightarrow> ascii_lower s = ascii_lower s"
    by simp
  have h1: "ascii_lower ''X.PNG'' = ascii_lower ''x.png'' \<and>
      (CHR ''.'' \<in> set ''X.PNG'') = (CHR ''.'' \<in> set ''x.png'')"
    by (simp add: ascii_lower_def ascii_lower_char_def)
  have h2: "CHR ''.'' \<notin> set ''README''"
    by simp
  have h3: "last (split_on CHR ''.'' (ascii_lower ''notes.xyz'')) \<notin> set known_extensions"
    by (simp add: ascii_lower_def ascii_lower_char_def known_extensions_def)
  have h4: "is_ascii ''X.PNG'' \<and> is_ascii ''x.png'' \<and>
      ascii_lower ''X.PNG'' = ascii_lower ''x.png''"
    by (simp add: is_ascii_def ascii_lower_def ascii_lower_char_def)
  have x: "fileicon_filter ascii_lower (Some ''x.png'') = ''fas fa-image''"
    by (simp add: fileicon_filter_def ascii_lower_def ascii_lower_char_def)
  have v: "''fas fa-video'' \<in> set icon_classes"
    by (simp add: icon_classes_def)
  from t h1 have a: "fileicon_filter ascii_lower (Some ''X.PNG'') =
      fileicon_filter ascii_lower (Some ''x.png'')"
    by blast
  from t h2 have b: "fileicon_filter ascii_lower (Some ''README'') = ''fas fa-file''"
    by blast
  from t h3 have c: "fileicon_filter ascii_lower (Some ''notes.xyz'') = ''fas fa-file''"
    by blast
  from t h0 v have d: "''fas fa-video'' \<in> range (fileicon_filter ascii_lower)"
    by blast
  from a b c d x show ?thesis
    by simp
qed

subsection \<open>Breadcrumbs\<close>

lemma concat_split_on: "concat (map (\<lambda>s. s @ [sep]) (split_on sep s)) = s @ [sep]"
  by (induction s) (auto split: list.splits)

lemma crumbs_loop_length: "length (crumbs_loop acc segs) = length segs"
  by (induction segs arbitrary: acc) auto

lemma crumbs_loop_names: "map c_name (crumbs_loop acc segs) = segs"
  by (induction segs arbitrary: acc) auto

lemma crumbs_loop_prefix:
  "i < length segs \<Longrightarrow>
     c_prefix (crumbs_loop acc segs ! i) = acc @ concat (map (\<lambda>s. s @ ''/'') (take (Suc i) segs))"
proof (induction segs arbitrary: acc i)
  case Nil
  then show ?case by simp
next
  case (Cons seg segs)
  show ?case
  proof (cases i)
    case 0
    then show ?thesis by simp
  next
    case (Suc j)
    with Cons.prems have "j < length segs" by simp
    from Cons.IH [OF this, of "acc @ seg @ ''/''"] Suc show ?thesis by simp
  qed
qed

lemma crumbs_loop_last:
  "segs \<noteq> [] \<Longrightarrow>
     c_prefix (last (crumbs_loop acc segs)) = acc @ concat (map (\<lambda>s. s @ ''/'') segs)"
proof (induction segs arbitrary: acc)
  case Nil
  then show ?case by simp
next
  case (Cons seg segs)
  show ?case
  proof (cases "segs = []")
    case True
    then show ?thesis by simp
  next
    case False
    then have "crumbs_loop (acc @ seg @ ''/'') segs \<noteq> []"
      by (cases segs) auto
    with Cons.IH [OF False, of "acc @ seg @ ''/''"] show ?thesis by simp
  qed
qed

lemma rstrip_slash_snoc: "rstrip_slash (q @ ''/'') = rstrip_slash q"
  by (simp add: rstrip_slash_def)

lemma rstrip_slash_id: "(rstrip_slash q = q) = (\<not> endswith_slash q)"
proof -
  have "(rstrip_slash q = q) = (rev (rstrip_slash q) = rev q)"
    by simp
  also have "\<dots> = (dropWhile (\<lambda>c. c = CHR ''/'') (rev q) = rev q)"
    by (simp add: rstrip_slash_def)
  also have "\<dots> = (rev q = [] \<or> hd (rev q) \<noteq> CHR ''/'')"
    by (simp add: dropWhile_eq_self_iff)
  also have "\<dots> = (\<not> endswith_slash q)"
    by (cases "q = []") (simp_all add: endswith_slash_def hd_rev)
  finally show ?thesis .
qed

lemma normalize_prefix_endswith:
  "normalize_prefix p \<noteq> [] \<Longrightarrow> endswith_slash (normalize_prefix p)"
  by (simp add: normalize_prefix_def endswith_slash_def split: if_splits)

lemma breadcrumbs_last:
  assumes "prefix \<noteq> []"
  shows "breadcrumbs prefix \<noteq> []"
    and "c_prefix (last (breadcrumbs prefix)) = rstrip_slash prefix @ ''/''"
proof -
  let ?segs = "split_on CHR ''/'' (rstrip_slash prefix)"
  have ne: "?segs \<noteq> []" by (rule split_on_nonempty)
  have "length (breadcrumbs prefix) = length ?segs"
    using assms by (simp add: breadcrumbs_def crumbs_loop_length)
  with ne show "breadcrumbs prefix \<noteq> []" by auto
  show "c_prefix (last (breadcrumbs prefix)) = rstrip_slash prefix @ ''/''"
    using assms crumbs_loop_last [OF ne, of "[]"] concat_split_on [of "CHR ''/''" "rstrip_slash prefix"]
    by (simp add: breadcrumbs_def)
qed

text \<open>Claim C7, as the code has it. For a normalized, non-empty prefix the crumbs are not
  empty, and the cumulative prefix of the last crumb is the prefix with all its trailing
  slashes removed, followed by one slash. It is the request prefix itself exactly when the
  prefix does not end in two slashes.\<close>

theorem breadcrumbs_final_prefix:
  assumes "prefix = normalize_prefix p" and "prefix \<noteq> []"
  shows "breadcrumbs prefix \<noteq> [] \<and>
         c_prefix (last (breadcrumbs prefix)) = rstrip_slash prefix @ ''/'' \<and>
         (c_prefix (last (breadcrumbs prefix)) = prefix) = (\<not> endswith_slash (butlast prefix))"
proof -
  have "endswith_slash prefix"
    using assms normalize_prefix_endswith by simp
  then have split: "prefix = butlast prefix @ ''/''"
    using append_butlast_last_id [of prefix] by (simp add: endswith_slash_def)
  have "rstrip_slash prefix = rstrip_slash (butlast prefix)"
    using rstrip_slash_snoc [of "butlast prefix"] split by simp
  moreover have "(rstrip_slash (butlast prefix) @ ''/'' = prefix)
      = (rstrip_slash (butlast prefix) = butlast prefix)"
    using split append_same_eq [of "rstrip_slash (butlast prefix)" "''/''" "butlast prefix"] by simp
  ultimately show ?thesis
    using breadcrumbs_last [OF assms(2)] rstrip_slash_id [of "butlast prefix"] by simp
qed

text \<open>The theorem at the prefix \<^verbatim>\<open>photos/2024/\<close>, which the path \<^verbatim>\<open>photos/2024\<close>
  normalizes to.\<close>

theorem breadcrumbs_final_prefix_witness:
  "breadcrumbs ''photos/2024/'' \<noteq> [] \<and>
   c_prefix (last (breadcrumbs ''photos/2024/'')) = ''photos/2024/''"
  using breadcrumbs_final_prefix [of "''photos/2024/''" "''photos/2024''"]
  by (simp add: normalize_prefix_def endswith_slash_def rstrip_slash_def)

text \<open>The prefix \<^verbatim>\<open>a//\<close> is normalized and not empty, and its last crumb has the
  cumulative prefix \<^verbatim>\<open>a/\<close>.\<close>

theorem breadcrumbs_final_prefix_counterexample:
  "normalize_prefix ''a//'' = ''a//'' \<and>
   c_prefix (last (breadcrumbs (normalize_prefix ''a//''))) = ''a/''"
  by (simp add: normalize_prefix_def endswith_slash_def breadcrumbs_def rstrip_slash_def)

text \<open>Claim C9, as the code has it. The names of the crumbs are the pieces of the prefix,
  stripped of its trailing slashes and split at every slash, empty pieces included; the
  cumulative prefix of crumb \<open>i\<close> joins the first \<open>i + 1\<close> pieces, each followed by a
  slash.\<close>

theorem breadcrumbs_segments:
  "map c_name (breadcrumbs prefix) =
     (if prefix = [] then [] else split_on CHR ''/'' (rstrip_slash prefix)) \<and>
   (\<forall>i < length (breadcrumbs prefix).
      c_prefix (breadcrumbs prefix ! i) =
        concat (map (\<lambda>s. s @ ''/'') (take (Suc i) (split_on CHR ''/'' (rstrip_slash prefix)))))"
  using crumbs_loop_prefix [of _ "split_on CHR ''/'' (rstrip_slash prefix)" "[]"]
  by (simp add: breadcrumbs_def crumbs_loop_names crumbs_loop_length)

text \<open>The theorem at the prefix \<^verbatim>\<open>a//b/\<close>.\<close>

theorem breadcrumbs_segments_witness:
  "map c_name (breadcrumbs ''a//b/'') = [''a'', [], ''b''] \<and>
   c_prefix (breadcrumbs ''a//b/'' ! 1) = ''a//''"
  using breadcrumbs_segments [of "''a//b/''"]
  by (simp add: breadcrumbs_def rstrip_slash_def)

text \<open>The path \<^verbatim>\<open>a//b\<close> has two slashes in a row, and its second crumb has the
  empty name.\<close>

theorem breadcrumbs_segments_counterexample:
  "normalize_prefix ''a//b'' = ''a//b/'' \<and>
   breadcrumbs (normalize_prefix ''a//b'') =
     [\<lparr>c_name = ''a'', c_prefix = ''a/''\<rparr>, \<lparr>c_name = [], c_prefix = ''a//''\<rparr>,
      \<lparr>c_name = ''b'', c_prefix = ''a//b/''\<rparr>]"
  by (simp add: normalize_prefix_def endswith_slash_def breadcrumbs_def rstrip_slash_def)

subsection \<open>Missing configuration\<close>

lemma get_s3_client_missing:
  assumes "falsy (env ''R2_ENDPOINT_URL'') \<or> falsy (env ''ACCESS_KEY_ID'')
           \<or> falsy (env ''SECRET_ACCESS_KEY'')"
  shows "\<exists>msg. msg \<in> {''R2_ENDPOINT_URL environment variable is not set'',
                        ''ACCESS_KEY_ID and SECRET_ACCESS_KEY must be set''} \<and>
               get_s3_client env = Inl (RuntimeError msg)"
  using assms by (auto simp: get_s3_client_def Let_def py_or_def)

lemma index_no_client:
  "get_s3_client env = Inl e \<Longrightarrow> index w env arg = ErrorPage (str_exn e) (current_year w)"
  by (simp add: index_def index_try_def)

lemma browse_no_client:
  "get_s3_client env = Inl e \<Longrightarrow> browse w env path = ErrorPage (str_exn e) (current_year w)"
  by (simp add: browse_def browse_try_def)

lemma serve_file_no_client:
  "get_s3_client env = Inl e \<Longrightarrow> serve_file w env fp = Inl (HTTPException 500)"
  by (simp add: serve_file_def serve_file_try_def abort_def)

lemma falsy_Some_nonempty: "s \<noteq> [] \<Longrightarrow> \<not> falsy (Some s)"
  by (simp add: falsy_def)

lemma thumb_etag_nonempty: "thumb_etag md5 fp \<noteq> []"
  by (simp add: thumb_etag_def)

lemma thumb_no_match:
  "inm \<noteq> Some (thumb_etag (md5_hexdigest w) fp) \<Longrightarrow>
     thumb w env ttl inm fp =
       (case thumb_try w env (cache_headers w ttl fp) (env ''R2_BUCKET_NAME'') fp of
          (Inl e, calls) \<Rightarrow> (placeholder w (cache_headers w ttl fp), calls)
        | (Inr r, calls) \<Rightarrow> (Inr r, calls))"
  by (simp add: thumb_def Let_def)

lemma thumb_match:
  "thumb w env ttl (Some (thumb_etag (md5_hexdigest w) fp)) fp =
     (Inr \<lparr>status = 304, mimetype = ''text/html'',
            headers = map_of (cache_headers w ttl fp), body = []\<rparr>, [])"
  by (simp add: thumb_def Let_def falsy_def thumb_etag_nonempty)

lemma thumb_no_client:
  "get_s3_client env = Inl e \<Longrightarrow> inm \<noteq> Some (thumb_etag (md5_hexdigest w) fp) \<Longrightarrow>
     thumb w env ttl inm fp = (placeholder w (cache_headers w ttl fp), [])"
  by (simp add: thumb_no_match thumb_try_def)

text \<open>Claim C8, as the code has it. When the endpoint or one of the two credentials is
  missing or empty, \<open>get_s3_client\<close> raises a \<^verbatim>\<open>RuntimeError\<close> each time a handler
  calls it: both listing routes render the page with its message and the file route
  answers with the status 500. The thumbnail route compares the validator first: a
  request whose \<^verbatim>\<open>If-None-Match\<close> is the validator gets 304 and the client is never
  built; every other request gets the result of sending the placeholder, without any call
  of the store. The start of the application does not look at these values: it succeeds
  whenever \<^verbatim>\<open>THUMB_TTL_SECONDS\<close> is readable.\<close>

theorem missing_config_per_request:
  assumes "falsy (env ''R2_ENDPOINT_URL'') \<or> falsy (env ''ACCESS_KEY_ID'')
           \<or> falsy (env ''SECRET_ACCESS_KEY'')"
  shows "\<exists>msg. msg \<in> {''R2_ENDPOINT_URL environment variable is not set'',
                        ''ACCESS_KEY_ID and SECRET_ACCESS_KEY must be set''} \<and>
           get_s3_client env = Inl (RuntimeError msg) \<and>
           index w env arg = ErrorPage msg (current_year w) \<and>
           browse w env path = ErrorPage msg (current_year w) \<and>
           serve_file w env fp = Inl (HTTPException 500) \<and>
           (inm \<noteq> Some (thumb_etag (md5_hexdigest w) fp) \<longrightarrow>
              thumb w env ttl inm fp = (placeholder w (cache_headers w ttl fp), [])) \<and>
           (inm = Some (thumb_etag (md5_hexdigest w) fp) \<longrightarrow>
              thumb w env ttl inm fp =
                (Inr \<lparr>status = 304, mimetype = ''text/html'',
                       headers = map_of (cache_headers w ttl fp), body = []\<rparr>, [])) \<and>
           (py_int w (getenv_default env ''THUMB_TTL_SECONDS'' ''3600'') = Some n \<longrightarrow>
              startup w env = Inr n)"
proof -
  from get_s3_client_missing [OF assms] obtain msg where
    m: "msg \<in> {''R2_ENDPOINT_URL environment variable is not set'',
                ''ACCESS_KEY_ID and SECRET_ACCESS_KEY must be set''}"
    and c: "get_s3_client env = Inl (RuntimeError msg)"
    by blast
  have "index w env arg = ErrorPage msg (current_year w)"
    using index_no_client [OF c] by simp
  moreover have "browse w env path = ErrorPage msg (current_year w)"
    using browse_no_client [OF c] by simp
  moreover have "serve_file w env fp = Inl (HTTPException 500)"
    by (rule serve_file_no_client [OF c])
  moreover have "thumb w env ttl inm fp = (placeholder w (cache_headers w ttl fp), [])"
    if "inm \<noteq> Some (thumb_etag (md5_hexdigest w) fp)"
    by (rule thumb_no_client [OF c that])
  moreover have "thumb w env ttl inm fp =
      (Inr \<lparr>status = 304, mimetype = ''text/html'',
             headers = map_of (cache_headers w ttl fp), body = []\<rparr>, [])"
    if "inm = Some (thumb_etag (md5_hexdigest w) fp)"
    unfolding that by (rule thumb_match)
  moreover have "startup w env = Inr n"
    if "py_int w (getenv_default env ''THUMB_TTL_SECONDS'' ''3600'') = Some n"
    using that by (simp add: startup_def)
  ultimately show ?thesis
    using m c by blast
qed

lemma demo_startup: "startup demo_world Map.empty = Inr 3600"
  by (simp add: startup_def demo_world_def getenv_default_def)

lemma demo_no_endpoint:
  "get_s3_client Map.empty = Inl (RuntimeError ''R2_ENDPOINT_URL environment variable is not set'')"
  by (simp add: get_s3_client_def falsy_def)

text \<open>With an empty environment the application starts, and the root listing answers with
  the error text of the missing endpoint.\<close>

theorem missing_config_per_request_counterexample:
  "startup demo_world Map.empty = Inr 3600 \<and>
   index demo_world Map.empty None =
     ErrorPage ''R2_ENDPOINT_URL environment variable is not set'' 2026"
  using index_no_client [OF demo_no_endpoint, of demo_world None] demo_startup
  by (simp add: demo_world_def)

text \<open>The theorem at the empty environment: a listing, a file, a thumbnail asked for
  without a validator, and the same thumbnail asked for with its validator.\<close>

theorem missing_config_per_request_witness:
  "browse demo_world Map.empty ''photos'' =
     ErrorPage ''R2_ENDPOINT_URL environment variable is not set'' 2026 \<and>
   serve_file demo_world Map.empty ''photos/a.txt'' = Inl (HTTPException 500) \<and>
   thumb demo_world Map.empty 3600 None ''photos/a.txt'' =
     (placeholder demo_world (cache_headers demo_world 3600 ''photos/a.txt''), []) \<and>
   thumb demo_world Map.empty 3600
       (Some (thumb_etag (md5_hexdigest demo_world) ''photos/a.txt'')) ''photos/a.txt'' =
     (Inr \<lparr>status = 304, mimetype = ''text/html'',
            headers = map_of (cache_headers demo_world 3600 ''photos/a.txt''), body = []\<rparr>, [])"
proof -
  have f: "falsy (Map.empty ''R2_ENDPOINT_URL'') \<or> falsy (Map.empty ''ACCESS_KEY_ID'')
           \<or> falsy (Map.empty ''SECRET_ACCESS_KEY'')"
    by (simp add: falsy_def)
  from missing_config_per_request [OF f, of demo_world None "''photos''" "''photos/a.txt''" None 3600]
  obtain msg where "get_s3_client Map.empty = Inl (RuntimeError msg)"
    and "browse demo_world Map.empty ''photos'' = ErrorPage msg (current_year demo_world)"
    and "serve_file demo_world Map.empty ''photos/a.txt'' = Inl (HTTPException 500)"
    and "thumb demo_world Map.empty 3600 None ''photos/a.txt'' =
           (placeholder demo_world (cache_headers demo_world 3600 ''photos/a.txt''), [])"
    by blast
  then have a: "browse demo_world Map.empty ''photos'' =
       ErrorPage ''R2_ENDPOINT_URL environment variable is not set'' 2026 \<and>
     serve_file demo_world Map.empty ''photos/a.txt'' = Inl (HTTPException 500) \<and>
     thumb demo_world Map.empty 3600 None ''photos/a.txt'' =
       (placeholder demo_world (cache_headers demo_world 3600 ''photos/a.txt''), [])"
    using demo_no_endpoint by (simp add: demo_world_def)
  from missing_config_per_request [OF f, of demo_world None "''photos''" "''photos/a.txt''"
      "Some (thumb_etag (md5_hexdigest demo_world) ''photos/a.txt'')" 3600]
  have b: "thumb demo_world Map.empty 3600
       (Some (thumb_etag (md5_hexdigest demo_world) ''photos/a.txt'')) ''photos/a.txt'' =
     (Inr \<lparr>status = 304, mimetype = ''text/html'',
            headers = map_of (cache_headers demo_world 3600 ''photos/a.txt''), body = []\<rparr>, [])"
    by blast
  from a b show ?thesis
    by blast
qed

subsection \<open>The file route\<close>

lemma serve_file_error_is_500: "serve_file w env fp = Inl e \<Longrightarrow> e = HTTPException 500"
  by (auto simp: serve_file_def abort_def split: sum.splits)

lemma serve_file_not_found_swallowed:
  assumes "get_s3_client env = Inr s3"
    and "head_object w s3 (env ''R2_BUCKET_NAME'') fp = Inl (ClientError ''404'' msg)"
  shows "serve_file_try w env fp = Inl (HTTPException 404)"
    and "serve_file w env fp = Inl (HTTPException 500)"
  using assms by (simp_all add: serve_file_def serve_file_try_def abort_def)

lemma demo_client:
  "get_s3_client demo_env =
     Inr \<lparr>endpoint_url = ''https://r2.example'', aws_access_key_id = ''ak'',
          aws_secret_access_key = ''sk'', signature_version = ''s3v4'',
          region_name = ''auto''\<rparr>"
  by (simp add: get_s3_client_def demo_env_def falsy_def py_or_def getenv_default_def)

text \<open>Claim C2, at the key \<^verbatim>\<open>missing.png\<close> of a store whose probe answers with the
  error code 404: the inner handler raises the HTTP exception 404, the outer handler
  catches it as it catches every exception, and the route answers with 500.\<close>

theorem serve_file_missing_key_is_500:
  "serve_file_try demo_world demo_env ''missing.png'' = Inl (HTTPException 404) \<and>
   serve_file demo_world demo_env ''missing.png'' = Inl (HTTPException 500) \<and>
   http_status (serve_file demo_world demo_env ''missing.png'') = 500"
proof -
  have h: "head_object demo_world s3 (demo_env ''R2_BUCKET_NAME'') ''missing.png''
             = Inl (ClientError ''404'' ''Not Found'')" for s3
    by (simp add: demo_world_def)
  show ?thesis
    using serve_file_not_found_swallowed [OF demo_client h]
    by (simp add: http_status_def)
qed

subsection \<open>The thumbnail route\<close>

lemma headers_update_fields:
  "status (headers_update r hs) = status r"
  "body (headers_update r hs) = body r"
  "mimetype (headers_update r hs) = mimetype r"
  by (simp_all add: headers_update_def)

lemma headers_update_cache:
  "headers (headers_update r (cache_headers w ttl fp)) ''Cache-Control''
     = Some (''public, max-age='' @ str_int ttl)"
  "headers (headers_update r (cache_headers w ttl fp)) ''ETag''
     = Some (thumb_etag (md5_hexdigest w) fp)"
  by (simp_all add: headers_update_def cache_headers_def)

lemma map_of_cache_headers:
  "map_of (cache_headers w ttl fp) ''Cache-Control'' = Some (''public, max-age='' @ str_int ttl)"
  "map_of (cache_headers w ttl fp) ''ETag'' = Some (thumb_etag (md5_hexdigest w) fp)"
  by (simp_all add: cache_headers_def)

lemma placeholder_Inr:
  "placeholder w hs = Inr r \<Longrightarrow> \<exists>r0. r = headers_update r0 hs"
  by (auto simp: placeholder_def split: sum.splits)

lemma thumb_try_Inr:
  "thumb_try w env hs b fp = (Inr r, calls) \<Longrightarrow> \<exists>r0. r = headers_update r0 hs"
  by (auto simp: thumb_try_def split: sum.splits dest: placeholder_Inr)

lemma thumb_Inr:
  assumes "fst (thumb w env ttl inm fp) = Inr r"
  shows "(\<exists>r0. r = headers_update r0 (cache_headers w ttl fp)) \<or>
         r = \<lparr>status = 304, mimetype = ''text/html'',
              headers = map_of (cache_headers w ttl fp), body = []\<rparr>"
proof (cases "inm = Some (thumb_etag (md5_hexdigest w) fp)")
  case True
  with assms show ?thesis by (simp add: thumb_match)
next
  case False
  obtain res calls where t: "thumb_try w env (cache_headers w ttl fp) (env ''R2_BUCKET_NAME'') fp = (res, calls)"
    by (cases "thumb_try w env (cache_headers w ttl fp) (env ''R2_BUCKET_NAME'') fp")
  show ?thesis
  proof (cases res)
    case (Inl e)
    with assms False t have "placeholder w (cache_headers w ttl fp) = Inr r"
      by (simp add: thumb_no_match)
    then show ?thesis using placeholder_Inr by blast
  next
    case (Inr r')
    with assms False t have "r' = r"
      by (simp add: thumb_no_match)
    with Inr t show ?thesis using thumb_try_Inr by blast
  qed
qed

lemma thumb_headers:
  assumes "fst (thumb w env ttl inm fp) = Inr r"
  shows "headers r ''Cache-Control'' = Some (''public, max-age='' @ str_int ttl)"
    and "headers r ''ETag'' = Some (thumb_etag (md5_hexdigest w) fp)"
  using thumb_Inr [OF assms] headers_update_cache map_of_cache_headers by auto

lemma cache_headers_md5:
  "md5_hexdigest w2 = md5_hexdigest w \<Longrightarrow> cache_headers w2 ttl fp = cache_headers w ttl fp"
  by (simp add: cache_headers_def)

lemma thumb_failure:
  assumes nm: "inm \<noteq> Some (thumb_etag (md5_hexdigest w) fp)"
    and fail: "(\<exists>e. get_s3_client env = Inl e) \<or>
         (\<exists>s3 e. get_s3_client env = Inr s3 \<and>
                  get_object w s3 (env ''R2_BUCKET_NAME'') fp = Inl e) \<or>
         (\<exists>s3 obj e. get_s3_client env = Inr s3 \<and>
                  get_object w s3 (env ''R2_BUCKET_NAME'') fp = Inr obj \<and>
                  jpeg_thumbnail w (Body obj) = Inl e)"
  shows "fst (thumb w env ttl inm fp) = placeholder w (cache_headers w ttl fp)"
proof (cases "placeholder w (cache_headers w ttl fp)")
  case (Inl e)
  with fail show ?thesis
    by (auto simp: thumb_no_match [OF nm] thumb_try_def)
next
  case (Inr r)
  with fail show ?thesis
    by (auto simp: thumb_no_match [OF nm] thumb_try_def)
qed

lemma thumb_placeholder_raises:
  "fst (thumb (demo_world\<lparr>send_file := (\<lambda>path mt. Inl (Exception ''FileNotFoundError''))\<rparr>)
          demo_env 3600 None ''missing.png'') = Inl (Exception ''FileNotFoundError'')"
  by (simp add: thumb_def Let_def falsy_def thumb_try_def placeholder_def demo_client
      demo_world_def)

text \<open>Claim C3, as the code has it. Let the request's validator not match. If the client
  cannot be built, or the fetch fails, or the image pipeline fails, then \<open>thumb\<close> returns
  what sending the placeholder file returns. When the file is sent, the response has the
  status, the body and the type that \<^verbatim>\<open>send_file\<close> gave it, with the
  \<^verbatim>\<open>Cache-Control\<close> and \<^verbatim>\<open>ETag\<close> headers that every response of \<open>thumb\<close> for this
  path carries, a successful thumbnail included. When \<^verbatim>\<open>send_file\<close> raises, no handler
  is left to catch it, and the exception reaches the caller.\<close>

theorem thumb_failure_gives_placeholder:
  assumes "inm \<noteq> Some (thumb_etag (md5_hexdigest w) fp)"
    and "(\<exists>e. get_s3_client env = Inl e) \<or>
         (\<exists>s3 e. get_s3_client env = Inr s3 \<and>
                  get_object w s3 (env ''R2_BUCKET_NAME'') fp = Inl e) \<or>
         (\<exists>s3 obj e. get_s3_client env = Inr s3 \<and>
                  get_object w s3 (env ''R2_BUCKET_NAME'') fp = Inr obj \<and>
                  jpeg_thumbnail w (Body obj) = Inl e)"
  shows "(\<forall>r0. send_file w (static_folder w @ ''/thumb_placeholder.svg'') ''image/svg+xml''
                 = Inr r0 \<longrightarrow>
            (\<exists>r. fst (thumb w env ttl inm fp) = Inr r \<and>
               status r = status r0 \<and> body r = body r0 \<and> mimetype r = mimetype r0 \<and>
               headers r ''Cache-Control'' = Some (''public, max-age='' @ str_int ttl) \<and>
               headers r ''ETag'' = Some (thumb_etag (md5_hexdigest w) fp) \<and>
               (\<forall>w2 env2 inm2 r2.
                  md5_hexdigest w2 = md5_hexdigest w \<longrightarrow>
                  fst (thumb w2 env2 ttl inm2 fp) = Inr r2 \<longrightarrow>
                  headers r2 ''Cache-Control'' = headers r ''Cache-Control'' \<and>
                  headers r2 ''ETag'' = headers r ''ETag''))) \<and>
         (\<forall>e. send_file w (static_folder w @ ''/thumb_placeholder.svg'') ''image/svg+xml''
                 = Inl e \<longrightarrow>
            fst (thumb w env ttl inm fp) = Inl e)"
proof (intro conjI allI impI)
  fix r0
  assume ph: "send_file w (static_folder w @ ''/thumb_placeholder.svg'') ''image/svg+xml''
                = Inr r0"
  let ?r = "headers_update r0 (cache_headers w ttl fp)"
  have 1: "fst (thumb w env ttl inm fp) = Inr ?r"
    using thumb_failure [OF assms, of ttl] ph by (simp add: placeholder_def)
  have 2: "status ?r = status r0 \<and> body ?r = body r0 \<and> mimetype ?r = mimetype r0"
    by (simp add: headers_update_fields)
  have 3: "headers r2 ''Cache-Control'' = headers ?r ''Cache-Control'' \<and>
           headers r2 ''ETag'' = headers ?r ''ETag''"
    if "md5_hexdigest w2 = md5_hexdigest w" "fst (thumb w2 env2 ttl inm2 fp) = Inr r2"
    for w2 env2 inm2 r2
    using thumb_headers [OF that(2)] that(1) by (simp add: headers_update_cache)
  show "\<exists>r. fst (thumb w env ttl inm fp) = Inr r \<and>
               status r = status r0 \<and> body r = body r0 \<and> mimetype r = mimetype r0 \<and>
               headers r ''Cache-Control'' = Some (''public, max-age='' @ str_int ttl) \<and>
               headers r ''ETag'' = Some (thumb_etag (md5_hexdigest w) fp) \<and>
               (\<forall>w2 env2 inm2 r2.
                  md5_hexdigest w2 = md5_hexdigest w \<longrightarrow>
                  fst (thumb w2 env2 ttl inm2 fp) = Inr r2 \<longrightarrow>
                  headers r2 ''Cache-Control'' = headers r ''Cache-Control'' \<and>
                  headers r2 ''ETag'' = headers r ''ETag'')"
    using 1 2 3 headers_update_cache [of r0 w ttl fp] by blast
next
  fix e
  assume "send_file w (static_folder w @ ''/thumb_placeholder.svg'') ''image/svg+xml'' = Inl e"
  then show "fst (thumb w env ttl inm fp) = Inl e"
    using thumb_failure [OF assms, of ttl] by (simp add: placeholder_def)
qed

text \<open>The claim fails where the placeholder file cannot be sent: the fetch of
  \<^verbatim>\<open>missing.png\<close> fails, the handler calls \<^verbatim>\<open>send_file\<close>, which raises, and so does
  the outer handler; the route answers with the exception, not with a placeholder.\<close>

theorem thumb_failure_gives_placeholder_counterexample:
  "(\<exists>s3. get_s3_client demo_env = Inr s3 \<and>
      get_object (demo_world\<lparr>send_file := (\<lambda>path mt. Inl (Exception ''FileNotFoundError''))\<rparr>)
        s3 (demo_env ''R2_BUCKET_NAME'') ''missing.png'' =
        Inl (ClientError ''NoSuchKey'' ''The specified key does not exist.'')) \<and>
   fst (thumb (demo_world\<lparr>send_file := (\<lambda>path mt. Inl (Exception ''FileNotFoundError''))\<rparr>)
          demo_env 3600 None ''missing.png'') = Inl (Exception ''FileNotFoundError'')"
  using thumb_placeholder_raises demo_client by (simp add: demo_world_def)

text \<open>The theorem at the key \<^verbatim>\<open>missing.png\<close>, whose fetch fails, in the store whose
  placeholder file is sent with the status 200.\<close>

theorem thumb_failure_gives_placeholder_witness:
  "\<exists>r. fst (thumb demo_world demo_env 3600 None ''missing.png'') = Inr r \<and>
        status r = 200 \<and> body r = ''<svg/>'' \<and> mimetype r = ''image/svg+xml''"
proof -
  let ?r0 = "\<lparr>status = 200, mimetype = ''image/svg+xml'',
              headers = map_of [(''Cache-Control'', ''no-cache'')], body = ''<svg/>''\<rparr>"
  have a: "send_file demo_world (static_folder demo_world @ ''/thumb_placeholder.svg'')
             ''image/svg+xml'' = Inr ?r0"
    by (simp add: demo_world_def)
  have c: "None \<noteq> Some (thumb_etag (md5_hexdigest demo_world) ''missing.png'')"
    by simp
  have d: "(\<exists>e. get_s3_client demo_env = Inl e) \<or>
         (\<exists>s3 e. get_s3_client demo_env = Inr s3 \<and>
                  get_object demo_world s3 (demo_env ''R2_BUCKET_NAME'') ''missing.png'' = Inl e) \<or>
         (\<exists>s3 obj e. get_s3_client demo_env = Inr s3 \<and>
                  get_object demo_world s3 (demo_env ''R2_BUCKET_NAME'') ''missing.png'' = Inr obj \<and>
                  jpeg_thumbnail demo_world (Body obj) = Inl e)"
    using demo_client by (simp add: demo_world_def)
  from thumb_failure_gives_placeholder [OF c d, of 3600] a
  obtain r where "fst (thumb demo_world demo_env 3600 None ''missing.png'') = Inr r"
    and "status r = status ?r0" and "body r = body ?r0" and "mimetype r = mimetype ?r0"
    by blast
  then show ?thesis
    by simp
qed

text \<open>Claim C4. The \<^verbatim>\<open>ETag\<close> of every response of \<open>thumb\<close> is \<open>thumb_etag\<close> of the
  path, a function of the path and of the hash function only. A request whose
  \<^verbatim>\<open>If-None-Match\<close> is that value gets the status 304 with an empty body and the two cache
  headers, whatever the environment and the store are, and no call of the store is made.\<close>

theorem thumb_validator_short_circuit:
  "(fst (thumb w env ttl inm fp) = Inr r \<longrightarrow>
      headers r ''ETag'' = Some (thumb_etag (md5_hexdigest w) fp)) \<and>
   (inm = Some (thumb_etag (md5_hexdigest w) fp) \<longrightarrow>
      thumb w env ttl inm fp =
        (Inr \<lparr>status = 304, mimetype = ''text/html'',
               headers = map_of (cache_headers w ttl fp), body = []\<rparr>, []))"
  using thumb_headers(2) thumb_match by blast

text \<open>The theorem at the path \<^verbatim>\<open>photos/a.jpg\<close>.\<close>

theorem thumb_validator_short_circuit_witness:
  "thumb demo_world demo_env 3600
     (Some (thumb_etag (md5_hexdigest demo_world) ''photos/a.jpg'')) ''photos/a.jpg'' =
     (Inr \<lparr>status = 304, mimetype = ''text/html'',
            headers = map_of (cache_headers demo_world 3600 ''photos/a.jpg''), body = []\<rparr>, [])"
  using thumb_validator_short_circuit
    [of demo_world demo_env 3600 "Some (thumb_etag (md5_hexdigest demo_world) ''photos/a.jpg'')"
        "''photos/a.jpg''"]
  by blast

subsection \<open>The order of a listing\<close>

lemma index_Listing:
  assumes "index w env arg = Listing es pre cr yr"
  shows "\<exists>s3 resp xs. get_s3_client env = Inr s3 \<and>
           list_objects_v2 w s3 \<lparr>Bucket = env ''R2_BUCKET_NAME'', Delimiter = ''/'',
             Prefix = (if pre \<noteq> [] then Some pre else None)\<rparr> = Inr resp \<and>
           index_entries w env s3 (env ''R2_BUCKET_NAME'') pre resp = Inr xs \<and>
           es = sort_entries xs \<and> cr = breadcrumbs pre"
  using assms unfolding index_def index_try_def Let_def
  by (simp split: sum.splits if_splits)

lemma browse_Listing:
  assumes "browse w env path = Listing es pre cr yr"
  shows "\<exists>s3 resp xs. get_s3_client env = Inr s3 \<and>
           list_objects_v2 w s3 \<lparr>Bucket = env ''R2_BUCKET_NAME'', Delimiter = ''/'',
             Prefix = Some pre\<rparr> = Inr resp \<and>
           browse_entries pre resp = Inr xs \<and>
           es = sort_entries xs \<and> cr = breadcrumbs pre"
  using assms unfolding browse_def browse_try_def Let_def
  by (auto split: sum.splits if_splits)

lemma key_le_dir:
  "entry_sort_key x \<le> entry_sort_key y \<Longrightarrow> \<not> e_is_dir x \<Longrightarrow> \<not> e_is_dir y"
  by (auto simp: entry_sort_key_def less_eq_prod_def)

lemma key_le_name:
  "entry_sort_key x \<le> entry_sort_key y \<Longrightarrow> e_is_dir x = e_is_dir y \<Longrightarrow> e_name x \<le> e_name y"
  by (auto simp: entry_sort_key_def less_eq_prod_def)

lemma sorted_keys_dirs_first:
  "sorted (map entry_sort_key es) \<Longrightarrow>
     es = filter e_is_dir es @ filter (\<lambda>e. \<not> e_is_dir e) es"
proof (induction es)
  case Nil
  show ?case by simp
next
  case (Cons x xs)
  then have le: "\<forall>y\<in>set xs. entry_sort_key x \<le> entry_sort_key y"
    and s: "sorted (map entry_sort_key xs)"
    by simp_all
  show ?case
  proof (cases "e_is_dir x")
    case True
    with Cons.IH [OF s] show ?thesis by simp
  next
    case False
    with le have "\<forall>y\<in>set xs. \<not> e_is_dir y"
      using key_le_dir by blast
    then have "filter e_is_dir xs = []" and "filter (\<lambda>e. \<not> e_is_dir e) xs = xs"
      by (simp_all add: filter_empty_conv filter_id_conv)
    with False show ?thesis by simp
  qed
qed

lemma sorted_keys_names:
  assumes "sorted (map entry_sort_key es)"
  shows "sorted (map e_name (filter (\<lambda>e. e_is_dir e = b) es))"
proof -
  have "sorted_wrt (\<lambda>x y. entry_sort_key x \<le> entry_sort_key y) es"
    using assms by (simp add: sorted_map)
  then have "sorted_wrt (\<lambda>x y. entry_sort_key x \<le> entry_sort_key y)
               (filter (\<lambda>e. e_is_dir e = b) es)"
    by (rule sorted_wrt_filter)
  then have "sorted_wrt (\<lambda>x y. e_name x \<le> e_name y) (filter (\<lambda>e. e_is_dir e = b) es)"
    by (rule sorted_wrt_mono_rel [rotated]) (auto intro: key_le_name)
  then show ?thesis
    by (simp add: sorted_map)
qed

lemma sort_entries_props:
  "sort_entries xs =
     filter e_is_dir (sort_entries xs) @ filter (\<lambda>e. \<not> e_is_dir e) (sort_entries xs)"
  "sorted (map e_name (filter e_is_dir (sort_entries xs)))"
  "sorted (map e_name (filter (\<lambda>e. \<not> e_is_dir e) (sort_entries xs)))"
  "mset (sort_entries xs) = mset xs"
  "filter (\<lambda>e. entry_sort_key e = k) (sort_entries xs) = filter (\<lambda>e. entry_sort_key e = k) xs"
proof -
  have s: "sorted (map entry_sort_key (sort_entries xs))"
    by (simp add: sort_entries_def)
  show "sort_entries xs =
     filter e_is_dir (sort_entries xs) @ filter (\<lambda>e. \<not> e_is_dir e) (sort_entries xs)"
    by (rule sorted_keys_dirs_first [OF s])
  show "sorted (map e_name (filter e_is_dir (sort_entries xs)))"
    using sorted_keys_names [OF s, of True] by simp
  show "sorted (map e_name (filter (\<lambda>e. \<not> e_is_dir e) (sort_entries xs)))"
    using sorted_keys_names [OF s, of False] by simp
  show "mset (sort_entries xs) = mset xs"
    by (simp add: sort_entries_def)
  show "filter (\<lambda>e. entry_sort_key e = k) (sort_entries xs)
          = filter (\<lambda>e. entry_sort_key e = k) xs"
    by (simp add: sort_entries_def sort_key_stable)
qed

text \<open>Claim C5. A listing returned by either route is the stable sort, by the key
  \<^verbatim>\<open>(not is_dir, name)\<close>, of the entries that the route built, in the order of their
  discovery, from the answer of the store to its one call: it has the same entries, and
  the entries with one and the same key stand in the order in which they were discovered;
  all directories come before all files, the names of the directories are in ascending
  lexicographic order and so are the names of the files.\<close>

theorem listing_sorted_stable:
  "(index w env arg = Listing es pre cr yr \<longrightarrow>
      (\<exists>s3 resp xs.
         get_s3_client env = Inr s3 \<and>
         list_objects_v2 w s3 \<lparr>Bucket = env ''R2_BUCKET_NAME'', Delimiter = ''/'',
           Prefix = (if pre \<noteq> [] then Some pre else None)\<rparr> = Inr resp \<and>
         index_entries w env s3 (env ''R2_BUCKET_NAME'') pre resp = Inr xs \<and>
         es = sort_entries xs \<and> mset es = mset xs \<and>
         (\<forall>k. filter (\<lambda>e. entry_sort_key e = k) es =
              filter (\<lambda>e. entry_sort_key e = k) xs))) \<and>
   (browse w env path = Listing es pre cr yr \<longrightarrow>
      (\<exists>s3 resp xs.
         get_s3_client env = Inr s3 \<and>
         list_objects_v2 w s3 \<lparr>Bucket = env ''R2_BUCKET_NAME'', Delimiter = ''/'',
           Prefix = Some pre\<rparr> = Inr resp \<and>
         browse_entries pre resp = Inr xs \<and>
         es = sort_entries xs \<and> mset es = mset xs \<and>
         (\<forall>k. filter (\<lambda>e. entry_sort_key e = k) es =
              filter (\<lambda>e. entry_sort_key e = k) xs))) \<and>
   (index w env arg = Listing es pre cr yr \<or> browse w env path = Listing es pre cr yr \<longrightarrow>
      es = filter e_is_dir es @ filter (\<lambda>e. \<not> e_is_dir e) es \<and>
      sorted (map e_name (filter e_is_dir es)) \<and>
      sorted (map e_name (filter (\<lambda>e. \<not> e_is_dir e) es)))"
proof (intro conjI impI)
  assume "index w env arg = Listing es pre cr yr"
  from index_Listing [OF this] obtain s3 resp xs where
    a: "get_s3_client env = Inr s3"
    and b: "list_objects_v2 w s3 \<lparr>Bucket = env ''R2_BUCKET_NAME'', Delimiter = ''/'',
           Prefix = (if pre \<noteq> [] then Some pre else None)\<rparr> = Inr resp"
    and c: "index_entries w env s3 (env ''R2_BUCKET_NAME'') pre resp = Inr xs"
    and e: "es = sort_entries xs"
    by blast
  show "\<exists>s3 resp xs.
         get_s3_client env = Inr s3 \<and>
         list_objects_v2 w s3 \<lparr>Bucket = env ''R2_BUCKET_NAME'', Delimiter = ''/'',
           Prefix = (if pre \<noteq> [] then Some pre else None)\<rparr> = Inr resp \<and>
         index_entries w env s3 (env ''R2_BUCKET_NAME'') pre resp = Inr xs \<and>
         es = sort_entries xs \<and> mset es = mset xs \<and>
         (\<forall>k. filter (\<lambda>e. entry_sort_key e = k) es =
              filter (\<lambda>e. entry_sort_key e = k) xs)"
    unfolding e
    by (intro exI [of _ s3] exI [of _ resp] exI [of _ xs] conjI allI a b c refl
        sort_entries_props(4,5))
next
  assume "browse w env path = Listing es pre cr yr"
  from browse_Listing [OF this] obtain s3 resp xs where
    a: "get_s3_client env = Inr s3"
    and b: "list_objects_v2 w s3 \<lparr>Bucket = env ''R2_BUCKET_NAME'', Delimiter = ''/'',
           Prefix = Some pre\<rparr> = Inr resp"
    and c: "browse_entries pre resp = Inr xs"
    and e: "es = sort_entries xs"
    by blast
  show "\<exists>s3 resp xs.
         get_s3_client env = Inr s3 \<and>
         list_objects_v2 w s3 \<lparr>Bucket = env ''R2_BUCKET_NAME'', Delimiter = ''/'',
           Prefix = Some pre\<rparr> = Inr resp \<and>
         browse_entries pre resp = Inr xs \<and>
         es = sort_entries xs \<and> mset es = mset xs \<and>
         (\<forall>k. filter (\<lambda>e. entry_sort_key e = k) es =
              filter (\<lambda>e. entry_sort_key e = k) xs)"
    unfolding e
    by (intro exI [of _ s3] exI [of _ resp] exI [of _ xs] conjI allI a b c refl
        sort_entries_props(4,5))
next
  assume "index w env arg = Listing es pre cr yr \<or> browse w env path = Listing es pre cr yr"
  then obtain xs where e: "es = sort_entries xs"
    using index_Listing browse_Listing by meson
  show "es = filter e_is_dir es @ filter (\<lambda>e. \<not> e_is_dir e) es"
    unfolding e by (rule sort_entries_props(1))
  show "sorted (map e_name (filter e_is_dir es))"
    unfolding e by (rule sort_entries_props(2))
  show "sorted (map e_name (filter (\<lambda>e. \<not> e_is_dir e) es))"
    unfolding e by (rule sort_entries_props(3))
qed

subsection \<open>The entries of a listing\<close>



lemma dir_entry_props:
  "dir_entry pre p = Inr d \<Longrightarrow>
     e_is_dir d \<and> p = Some (e_key d) \<and> e_size d = None \<and> e_last_modified d = None \<and>
     e_public_url d = None \<and> e_presigned_url d = None \<and> e_file_url d = None"
  by (auto simp: dir_entry_def Let_def split: option.splits)

lemma dir_entries_member:
  "dir_entries pre ps = Inr ds \<Longrightarrow> d \<in> set ds \<Longrightarrow> \<exists>p\<in>set ps. dir_entry pre p = Inr d"
  by (induction ps arbitrary: ds) (auto split: sum.splits)







subsection \<open>A listing of the example store\<close>

lemma index_demo_photos:
  "index demo_world demo_env (Some ''photos/'') =
     Listing
       [\<lparr>e_name = ''2024'', e_key = ''photos/2024/'', e_size = None, e_last_modified = None,
          e_is_dir = True, e_public_url = None, e_presigned_url = None, e_file_url = None\<rparr>,
        \<lparr>e_name = ''a.txt'', e_key = ''photos/a.txt'', e_size = Some (Some 5),
          e_last_modified = Some ''2024-03-09 07:05:00'', e_is_dir = False,
          e_public_url = None,
          e_presigned_url = Some ''https://r2.example/bucket/photos/a.txt?X-Amz-Expires=3600'',
          e_file_url = Some ''/file/photos/a.txt''\<rparr>]
       ''photos/'' [\<lparr>c_name = ''photos'', c_prefix = ''photos/''\<rparr>] 2026"
  by code_simp

lemma browse_demo_photos:
  "browse demo_world demo_env ''photos/'' =
     Listing
       [\<lparr>e_name = ''2024'', e_key = ''photos/2024/'', e_size = None, e_last_modified = None,
          e_is_dir = True, e_public_url = None, e_presigned_url = None, e_file_url = None\<rparr>,
        \<lparr>e_name = ''a.txt'', e_key = ''photos/a.txt'', e_size = Some (Some 5),
          e_last_modified = Some ''2024-03-09 07:05:00'', e_is_dir = False,
          e_public_url = None, e_presigned_url = None,
          e_file_url = Some ''/file/photos/a.txt''\<rparr>]
       ''photos/'' [\<lparr>c_name = ''photos'', c_prefix = ''photos/''\<rparr>] 2026"
  by code_simp


text \<open>The store with two objects of one key: the entries as the routes discover them,
  and the listings.\<close>

lemma tie_response:
  "list_objects_v2 tie_world s3 kwargs = Inr resp \<Longrightarrow>
     resp = \<lparr>Contents = Some [\<lparr>Key = Some ''photos/a.txt'', Size = Some 1, LastModified = None\<rparr>,
                          \<lparr>Key = Some ''photos/a.txt'', Size = Some 2, LastModified = None\<rparr>],
         CommonPrefixes = Some [Some ''photos/2024/'']\<rparr>"
  by (auto simp: tie_world_def)

lemma index_entries_tie:
  "index_entries tie_world demo_env s3 (Some ''bucket'') ''photos/''
     \<lparr>Contents = Some [\<lparr>Key = Some ''photos/a.txt'', Size = Some 1, LastModified = None\<rparr>,
                          \<lparr>Key = Some ''photos/a.txt'', Size = Some 2, LastModified = None\<rparr>],
         CommonPrefixes = Some [Some ''photos/2024/'']\<rparr> =
     Inr [\<lparr>e_name = ''a.txt'', e_key = ''photos/a.txt'', e_size = Some (Some 1),
          e_last_modified = Some ''None'', e_is_dir = False, e_public_url = None,
          e_presigned_url = Some ''https://r2.example/bucket/photos/a.txt?X-Amz-Expires=3600'',
          e_file_url = Some ''/file/photos/a.txt''\<rparr>,
        \<lparr>e_name = ''a.txt'', e_key = ''photos/a.txt'', e_size = Some (Some 2),
          e_last_modified = Some ''None'', e_is_dir = False, e_public_url = None,
          e_presigned_url = Some ''https://r2.example/bucket/photos/a.txt?X-Amz-Expires=3600'',
          e_file_url = Some ''/file/photos/a.txt''\<rparr>,
        \<lparr>e_name = ''2024'', e_key = ''photos/2024/'', e_size = None, e_last_modified = None,
          e_is_dir = True, e_public_url = None, e_presigned_url = None, e_file_url = None\<rparr>]"
  by (simp add: index_entries_def index_file_entry_def dir_entry_def List.map_filter_def
      Let_def endswith_slash_def rstrip_slash_def get_public_url_def falsy_def
      generate_presigned_url_def getenv_default_def get_file_url_def format_timestamp_def
      tie_world_def demo_world_def demo_env_def str_int_def str_nat.simps)

lemma browse_entries_tie:
  "browse_entries ''photos/''
     \<lparr>Contents = Some [\<lparr>Key = Some ''photos/a.txt'', Size = Some 1, LastModified = None\<rparr>,
                          \<lparr>Key = Some ''photos/a.txt'', Size = Some 2, LastModified = None\<rparr>],
         CommonPrefixes = Some [Some ''photos/2024/'']\<rparr> =
     Inr [\<lparr>e_name = ''a.txt'', e_key = ''photos/a.txt'', e_size = Some (Some 1),
          e_last_modified = Some ''None'', e_is_dir = False, e_public_url = None,
          e_presigned_url = None,
          e_file_url = Some ''/file/photos/a.txt''\<rparr>,
        \<lparr>e_name = ''a.txt'', e_key = ''photos/a.txt'', e_size = Some (Some 2),
          e_last_modified = Some ''None'', e_is_dir = False, e_public_url = None,
          e_presigned_url = None,
          e_file_url = Some ''/file/photos/a.txt''\<rparr>,
        \<lparr>e_name = ''2024'', e_key = ''photos/2024/'', e_size = None, e_last_modified = None,
          e_is_dir = True, e_public_url = None, e_presigned_url = None, e_file_url = None\<rparr>]"
  by (simp add: browse_entries_def browse_file_entry_def dir_entry_def List.map_filter_def
      Let_def endswith_slash_def rstrip_slash_def get_file_url_def format_timestamp_def)

lemma index_tie:
  "index tie_world demo_env (Some ''photos/'') =
     Listing
       [\<lparr>e_name = ''2024'', e_key = ''photos/2024/'', e_size = None, e_last_modified = None,
          e_is_dir = True, e_public_url = None, e_presigned_url = None, e_file_url = None\<rparr>,
        \<lparr>e_name = ''a.txt'', e_key = ''photos/a.txt'', e_size = Some (Some 1),
          e_last_modified = Some ''None'', e_is_dir = False, e_public_url = None,
          e_presigned_url = Some ''https://r2.example/bucket/photos/a.txt?X-Amz-Expires=3600'',
          e_file_url = Some ''/file/photos/a.txt''\<rparr>,
        \<lparr>e_name = ''a.txt'', e_key = ''photos/a.txt'', e_size = Some (Some 2),
          e_last_modified = Some ''None'', e_is_dir = False, e_public_url = None,
          e_presigned_url = Some ''https://r2.example/bucket/photos/a.txt?X-Amz-Expires=3600'',
          e_file_url = Some ''/file/photos/a.txt''\<rparr>]
       ''photos/'' [\<lparr>c_name = ''photos'', c_prefix = ''photos/''\<rparr>] 2026"
  by code_simp

lemma browse_tie:
  "browse tie_world demo_env ''photos/'' =
     Listing
       [\<lparr>e_name = ''2024'', e_key = ''photos/2024/'', e_size = None, e_last_modified = None,
          e_is_dir = True, e_public_url = None, e_presigned_url = None, e_file_url = None\<rparr>,
        \<lparr>e_name = ''a.txt'', e_key = ''photos/a.txt'', e_size = Some (Some 1),
          e_last_modified = Some ''None'', e_is_dir = False, e_public_url = None,
          e_presigned_url = None,
          e_file_url = Some ''/file/photos/a.txt''\<rparr>,
        \<lparr>e_name = ''a.txt'', e_key = ''photos/a.txt'', e_size = Some (Some 2),
          e_last_modified = Some ''None'', e_is_dir = False, e_public_url = None,
          e_presigned_url = None,
          e_file_url = Some ''/file/photos/a.txt''\<rparr>]
       ''photos/'' [\<lparr>c_name = ''photos'', c_prefix = ''photos/''\<rparr>] 2026"
  by code_simp

lemma demo_bucket: "demo_env ''R2_BUCKET_NAME'' = Some ''bucket''"
  by (simp add: demo_env_def)

text \<open>The theorem at the prefix \<^verbatim>\<open>photos/\<close> of that store, for both routes: the
  directory, discovered last, comes first, and the two files of one name keep the order
  of their discovery, size 1 before size 2.\<close>

theorem listing_sorted_stable_witness:
  "(\<exists>es xs. index tie_world demo_env (Some ''photos/'') =
              Listing es ''photos/'' [\<lparr>c_name = ''photos'', c_prefix = ''photos/''\<rparr>] 2026 \<and>
            es = sort_entries xs \<and>
            map e_name xs = [''a.txt'', ''a.txt'', ''2024''] \<and>
            map e_size xs = [Some (Some 1), Some (Some 2), None] \<and>
            map e_name es = [''2024'', ''a.txt'', ''a.txt''] \<and>
            map e_size es = [None, Some (Some 1), Some (Some 2)]) \<and>
   (\<exists>es xs. browse tie_world demo_env ''photos/'' =
              Listing es ''photos/'' [\<lparr>c_name = ''photos'', c_prefix = ''photos/''\<rparr>] 2026 \<and>
            es = sort_entries xs \<and>
            map e_name xs = [''a.txt'', ''a.txt'', ''2024''] \<and>
            map e_size xs = [Some (Some 1), Some (Some 2), None] \<and>
            map e_name es = [''2024'', ''a.txt'', ''a.txt''] \<and>
            map e_size es = [None, Some (Some 1), Some (Some 2)])"
proof
  let ?es = "[\<lparr>e_name = ''2024'', e_key = ''photos/2024/'', e_size = None, e_last_modified = None,
          e_is_dir = True, e_public_url = None, e_presigned_url = None, e_file_url = None\<rparr>,
        \<lparr>e_name = ''a.txt'', e_key = ''photos/a.txt'', e_size = Some (Some 1),
          e_last_modified = Some ''None'', e_is_dir = False, e_public_url = None,
          e_presigned_url = Some ''https://r2.example/bucket/photos/a.txt?X-Amz-Expires=3600'',
          e_file_url = Some ''/file/photos/a.txt''\<rparr>,
        \<lparr>e_name = ''a.txt'', e_key = ''photos/a.txt'', e_size = Some (Some 2),
          e_last_modified = Some ''None'', e_is_dir = False, e_public_url = None,
          e_presigned_url = Some ''https://r2.example/bucket/photos/a.txt?X-Amz-Expires=3600'',
          e_file_url = Some ''/file/photos/a.txt''\<rparr>]"
  from listing_sorted_stable [THEN conjunct1, THEN mp, OF index_tie]
  obtain s3 resp xs where
    l: "list_objects_v2 tie_world s3 \<lparr>Bucket = demo_env ''R2_BUCKET_NAME'', Delimiter = ''/'',
           Prefix = (if ''photos/'' \<noteq> [] then Some ''photos/'' else None)\<rparr> = Inr resp"
    and x: "index_entries tie_world demo_env s3 (demo_env ''R2_BUCKET_NAME'') ''photos/'' resp
              = Inr xs"
    and e: "?es = sort_entries xs"
    by blast
  from x have "xs = [\<lparr>e_name = ''a.txt'', e_key = ''photos/a.txt'', e_size = Some (Some 1),
          e_last_modified = Some ''None'', e_is_dir = False, e_public_url = None,
          e_presigned_url = Some ''https://r2.example/bucket/photos/a.txt?X-Amz-Expires=3600'',
          e_file_url = Some ''/file/photos/a.txt''\<rparr>,
        \<lparr>e_name = ''a.txt'', e_key = ''photos/a.txt'', e_size = Some (Some 2),
          e_last_modified = Some ''None'', e_is_dir = False, e_public_url = None,
          e_presigned_url = Some ''https://r2.example/bucket/photos/a.txt?X-Amz-Expires=3600'',
          e_file_url = Some ''/file/photos/a.txt''\<rparr>,
        \<lparr>e_name = ''2024'', e_key = ''photos/2024/'', e_size = None, e_last_modified = None,
          e_is_dir = True, e_public_url = None, e_presigned_url = None, e_file_url = None\<rparr>]"
    unfolding tie_response [OF l] demo_bucket index_entries_tie by simp
  then have "map e_name xs = [''a.txt'', ''a.txt'', ''2024''] \<and>
      map e_size xs = [Some (Some 1), Some (Some 2), None]"
    by simp
  moreover have "map e_name ?es = [''2024'', ''a.txt'', ''a.txt''] \<and>
      map e_size ?es = [None, Some (Some 1), Some (Some 2)]"
    by simp
  ultimately show "\<exists>es xs. index tie_world demo_env (Some ''photos/'') =
              Listing es ''photos/'' [\<lparr>c_name = ''photos'', c_prefix = ''photos/''\<rparr>] 2026 \<and>
            es = sort_entries xs \<and>
            map e_name xs = [''a.txt'', ''a.txt'', ''2024''] \<and>
            map e_size xs = [Some (Some 1), Some (Some 2), None] \<and>
            map e_name es = [''2024'', ''a.txt'', ''a.txt''] \<and>
            map e_size es = [None, Some (Some 1), Some (Some 2)]"
    by (intro exI [of _ ?es] exI [of _ xs] conjI index_tie e) simp_all
next
  let ?es = "[\<lparr>e_name = ''2024'', e_key = ''photos/2024/'', e_size = None, e_last_modified = None,
          e_is_dir = True, e_public_url = None, e_presigned_url = None, e_file_url = None\<rparr>,
        \<lparr>e_name = ''a.txt'', e_key = ''photos/a.txt'', e_size = Some (Some 1),
          e_last_modified = Some ''None'', e_is_dir = False, e_public_url = None,
          e_presigned_url = None,
          e_file_url = Some ''/file/photos/a.txt''\<rparr>,
        \<lparr>e_name = ''a.txt'', e_key = ''photos/a.txt'', e_size = Some (Some 2),
          e_last_modified = Some ''None'', e_is_dir = False, e_public_url = None,
          e_presigned_url = None,
          e_file_url = Some ''/file/photos/a.txt''\<rparr>]"
  from listing_sorted_stable [THEN conjunct2, THEN conjunct1, THEN mp, OF browse_tie]
  obtain s3 resp xs where
    l: "list_objects_v2 tie_world s3 \<lparr>Bucket = demo_env ''R2_BUCKET_NAME'', Delimiter = ''/'',
           Prefix = Some ''photos/''\<rparr> = Inr resp"
    and x: "browse_entries ''photos/'' resp = Inr xs"
    and e: "?es = sort_entries xs"
    by blast
  from x have "xs = [\<lparr>e_name = ''a.txt'', e_key = ''photos/a.txt'', e_size = Some (Some 1),
          e_last_modified = Some ''None'', e_is_dir = False, e_public_url = None,
          e_presigned_url = None,
          e_file_url = Some ''/file/photos/a.txt''\<rparr>,
        \<lparr>e_name = ''a.txt'', e_key = ''photos/a.txt'', e_size = Some (Some 2),
          e_last_modified = Some ''None'', e_is_dir = False, e_public_url = None,
          e_presigned_url = None,
          e_file_url = Some ''/file/photos/a.txt''\<rparr>,
        \<lparr>e_name = ''2024'', e_key = ''photos/2024/'', e_size = None, e_last_modified = None,
          e_is_dir = True, e_public_url = None, e_presigned_url = None, e_file_url = None\<rparr>]"
    unfolding tie_response [OF l] browse_entries_tie by simp
  then have "map e_name xs = [''a.txt'', ''a.txt'', ''2024''] \<and>
      map e_size xs = [Some (Some 1), Some (Some 2), None]"
    by simp
  moreover have "map e_name ?es = [''2024'', ''a.txt'', ''a.txt''] \<and>
      map e_size ?es = [None, Some (Some 1), Some (Some 2)]"
    by simp
  ultimately show "\<exists>es xs. browse tie_world demo_env ''photos/'' =
              Listing es ''photos/'' [\<lparr>c_name = ''photos'', c_prefix = ''photos/''\<rparr>] 2026 \<and>
            es = sort_entries xs \<and>
            map e_name xs = [''a.txt'', ''a.txt'', ''2024''] \<and>
            map e_size xs = [Some (Some 1), Some (Some 2), None] \<and>
            map e_name es = [''2024'', ''a.txt'', ''a.txt''] \<and>
            map e_size es = [None, Some (Some 1), Some (Some 2)]"
    by (intro exI [of _ ?es] exI [of _ xs] conjI browse_tie e) simp_all
qed


subsection \<open>The path route against the root route\<close>

text \<open>For a path that is not empty, \<open>browse\<close> returns what \<open>index\<close> returns for the
  same prefix, with the two URL fields of every entry removed.\<close>

lemma browse_file_entry_erase:
  "browse_file_entry pre obj =
     map_option (\<lambda>e. e\<lparr>e_public_url := None, e_presigned_url := None\<rparr>)
       (index_file_entry w env s3 b pre obj)"
  by (simp add: browse_file_entry_def index_file_entry_def Let_def)

lemma map_filter_map_option:
  "List.map_filter (\<lambda>x. map_option g (f x)) xs = map g (List.map_filter f xs)"
  by (induction xs) (auto simp: List.map_filter_def)

lemma dir_entries_erase:
  assumes "dir_entries pre ps = Inr ds"
  shows "map (\<lambda>e. e\<lparr>e_public_url := None, e_presigned_url := None\<rparr>) ds = ds"
proof -
  have "\<forall>d\<in>set ds. d\<lparr>e_public_url := None, e_presigned_url := None\<rparr> = d"
  proof
    fix d
    assume "d \<in> set ds"
    from dir_entries_member [OF assms this] obtain p where "dir_entry pre p = Inr d"
      by blast
    from dir_entry_props [OF this] show "d\<lparr>e_public_url := None, e_presigned_url := None\<rparr> = d"
      by simp
  qed
  then show ?thesis
    by (simp add: map_idI)
qed

lemma insort_key_map_inv:
  "(\<And>x. f (g x) = f x) \<Longrightarrow>
     insort_key f (g x) (map g ys) = map g (insort_key f x ys)"
  by (induction ys) simp_all

lemma sort_key_map_inv:
  "(\<And>x. f (g x) = f x) \<Longrightarrow> sort_key f (map g xs) = map g (sort_key f xs)"
  by (induction xs) (simp_all add: insort_key_map_inv)

lemma sort_entries_erase:
  "sort_entries (map (\<lambda>e. e\<lparr>e_public_url := None, e_presigned_url := None\<rparr>) xs) =
     map (\<lambda>e. e\<lparr>e_public_url := None, e_presigned_url := None\<rparr>) (sort_entries xs)"
  unfolding sort_entries_def
  by (rule sort_key_map_inv) (simp add: entry_sort_key_def)

lemma browse_entries_erase:
  "browse_entries pre resp =
     map_sum id (map (\<lambda>e. e\<lparr>e_public_url := None, e_presigned_url := None\<rparr>))
       (index_entries w env s3 b pre resp)"
proof -
  have e: "browse_file_entry pre =
      (\<lambda>x. map_option (\<lambda>e. e\<lparr>e_public_url := None, e_presigned_url := None\<rparr>)
         (index_file_entry w env s3 b pre x))"
    by (rule ext) (rule browse_file_entry_erase)
  have f: "List.map_filter (browse_file_entry pre) objs =
      map (\<lambda>e. e\<lparr>e_public_url := None, e_presigned_url := None\<rparr>)
        (List.map_filter (index_file_entry w env s3 b pre) objs)" for objs
    unfolding e by (rule map_filter_map_option)
  show ?thesis
    unfolding browse_entries_def index_entries_def Let_def
    by (auto simp: f dir_entries_erase split: sum.splits option.splits)
qed

lemma normalize_prefix_nonempty: "p \<noteq> [] \<Longrightarrow> normalize_prefix p \<noteq> []"
  by (simp add: normalize_prefix_def)

lemma browse_is_index_without_urls:
  assumes "p \<noteq> []"
  shows "browse w env p =
     (case index w env (Some p) of
        Listing es pre cr yr \<Rightarrow>
          Listing (map (\<lambda>e. e\<lparr>e_public_url := None, e_presigned_url := None\<rparr>) es) pre cr yr
      | ErrorPage msg yr \<Rightarrow> ErrorPage msg yr)"
proof (cases "get_s3_client env")
  case (Inl e)
  then show ?thesis
    by (simp add: browse_def browse_try_def index_def index_try_def)
next
  case (Inr s3)
  note n = normalize_prefix_nonempty [OF assms]
  show ?thesis
    unfolding browse_def browse_try_def index_def index_try_def Let_def
    using Inr n
    by (simp add: browse_entries_erase [of _ _ w env s3 "env ''R2_BUCKET_NAME''"]
          sort_entries_erase split: sum.splits)
qed

text \<open>Claim C1, at the prefix \<^verbatim>\<open>photos/\<close> of the example store. The root route with
  \<^verbatim>\<open>?prefix=photos/\<close> gives the file entry its presigned URL; the path route
  \<^verbatim>\<open>/photos/\<close> gives the same entries and the same crumbs, but the file entry has no
  \<^verbatim>\<open>presigned_url\<close> (and never a \<^verbatim>\<open>public_url\<close>): the two listings differ.\<close>

theorem browse_entries_differ_from_index:
  "index demo_world demo_env (Some ''photos/'') =
     Listing
       [\<lparr>e_name = ''2024'', e_key = ''photos/2024/'', e_size = None, e_last_modified = None,
          e_is_dir = True, e_public_url = None, e_presigned_url = None, e_file_url = None\<rparr>,
        \<lparr>e_name = ''a.txt'', e_key = ''photos/a.txt'', e_size = Some (Some 5),
          e_last_modified = Some ''2024-03-09 07:05:00'', e_is_dir = False,
          e_public_url = None,
          e_presigned_url = Some ''https://r2.example/bucket/photos/a.txt?X-Amz-Expires=3600'',
          e_file_url = Some ''/file/photos/a.txt''\<rparr>]
       ''photos/'' [\<lparr>c_name = ''photos'', c_prefix = ''photos/''\<rparr>] 2026 \<and>
   browse demo_world demo_env ''photos/'' =
     Listing
       [\<lparr>e_name = ''2024'', e_key = ''photos/2024/'', e_size = None, e_last_modified = None,
          e_is_dir = True, e_public_url = None, e_presigned_url = None, e_file_url = None\<rparr>,
        \<lparr>e_name = ''a.txt'', e_key = ''photos/a.txt'', e_size = Some (Some 5),
          e_last_modified = Some ''2024-03-09 07:05:00'', e_is_dir = False,
          e_public_url = None, e_presigned_url = None,
          e_file_url = Some ''/file/photos/a.txt''\<rparr>]
       ''photos/'' [\<lparr>c_name = ''photos'', c_prefix = ''photos/''\<rparr>] 2026 \<and>
   index demo_world demo_env (Some ''photos/'') \<noteq> browse demo_world demo_env ''photos/''"
  using index_demo_photos browse_demo_photos by simp

end
